theory Spec2Isabelle
  imports Complex_Main
begin

section \<open>CD ladder projection engine (src/utils/projectionLogic.js)\<close>

text \<open>
  The engine computes with JavaScript numbers. The embedding reads them as real numbers:
  every arithmetic operation is exact and the non-finite values (NaN, the infinities) do
  not exist. Years are integers. A value that the source tests with
  \<^verbatim>\<open>typeof v !== 'number'\<close> is an \<open>option\<close>, \<open>None\<close> standing for
  anything that is not a number (\<^verbatim>\<open>null\<close>, \<^verbatim>\<open>undefined\<close>).
  Messages written to the console are not part of any result and are left out.

  The objects that the engine uses as dictionaries are plain objects: reading a key that is
  not one of their own still finds the members of \<^verbatim>\<open>Object.prototype\<close>. Where the
  source, on such a key, computes with something that is not a number, its result is NaN;
  the embedding marks that value \<open>NotANumber\<close> and does not follow it through the
  arithmetic of the yearly loop: a run that reads such a rate ends with the outcome
  \<open>NotANumber\<close>, which is neither a returned result nor an exception.
\<close>

subsection \<open>Failures and property reads\<close>

text \<open>\<open>Error msg\<close> is an uncaught \<^verbatim>\<open>throw new Error(msg)\<close>, \<open>TypeError\<close> the
  host's exception for reading a property of \<^verbatim>\<open>undefined\<close> (its message is the
  host's), \<open>NotANumber\<close> a value that is NaN.\<close>

datatype failure = Error string | TypeError | NotANumber

text \<open>The names that every plain object inherits from \<^verbatim>\<open>Object.prototype\<close>.\<close>

definition objectPrototypeNames :: "string list" where
  "objectPrototypeNames =
     [''constructor'', ''__defineGetter__'', ''__defineSetter__'', ''hasOwnProperty'',
      ''__lookupGetter__'', ''__lookupSetter__'', ''isPrototypeOf'', ''propertyIsEnumerable'',
      ''toString'', ''valueOf'', ''__proto__'', ''toLocaleString'']"

text \<open>\<^verbatim>\<open>obj[key]\<close> on a plain object with the own properties \<open>obj\<close>: an own
  value, an inherited member (a function, or \<^verbatim>\<open>Object.prototype\<close> itself: truthy, not
  nullish, not a number, without any of the fields the engine reads), or
  \<^verbatim>\<open>undefined\<close>.\<close>

datatype 'a property = Own 'a | Inherited | Undefined

definition getProperty :: "(string \<rightharpoonup> 'a) \<Rightarrow> string \<Rightarrow> 'a property" where
  "getProperty obj key =
     (case obj key of
        Some v \<Rightarrow> Own v
      | None \<Rightarrow> if key \<in> set objectPrototypeNames then Inherited else Undefined)"


subsection \<open>Rate table and rate scenarios\<close>

text \<open>An entry of \<^verbatim>\<open>interestRates\<close>: \<^verbatim>\<open>{ duration, apy }\<close>, the
  duration in whole months (\<^verbatim>\<open>null\<close> for the liquid account). The rate table is
  the map of the caller's own entries: a member it inherits has neither a numeric
  \<^verbatim>\<open>apy\<close> nor a numeric \<^verbatim>\<open>duration\<close>, so every test of the source treats it
  as it treats a missing entry.\<close>

record rate_info =
  apy :: "real option"
  duration :: "int option"

type_synonym rate_table = "string \<rightharpoonup> rate_info"

text \<open>An entry of \<^verbatim>\<open>RATE_SCENARIOS\<close> that has timing data. The field
  \<^verbatim>\<open>floor\<close> of the source is \<open>floorApy\<close> here, since \<open>floor\<close> is the
  rounding function of HOL.\<close>

record scenario_config =
  targetYearStartEffect :: int
  targetYearFullEffect :: int
  floorApy :: real
  adjustments :: "string \<rightharpoonup> real"

definition fixedTermKeys :: "string list" where
  "fixedTermKeys = [''6m'', ''9m'', ''12m'', ''18m'', ''24m'', ''30m'', ''36m'', ''48m'', ''60m'']"

definition ratesFallModerately :: scenario_config where
  "ratesFallModerately =
     \<lparr> targetYearStartEffect = 2, targetYearFullEffect = 3, floorApy = 0.25,
       adjustments = map_of ((''HYSA'', - 0.5) # map (\<lambda>k. (k, - 0.75)) fixedTermKeys) \<rparr>"

definition ratesFallSignificantly :: scenario_config where
  "ratesFallSignificantly =
     \<lparr> targetYearStartEffect = 1, targetYearFullEffect = 2, floorApy = 0.10,
       adjustments = map_of ((''HYSA'', - 1.5) # map (\<lambda>k. (k, - 2.0)) fixedTermKeys) \<rparr>"

text \<open>The own entries of the table \<^verbatim>\<open>RATE_SCENARIOS\<close>. Its baseline entry
  \<^verbatim>\<open>ratesStayHigh\<close> holds a label and a description only and is never read:
  \<^verbatim>\<open>getRateForYear\<close> returns before the lookup for that key.\<close>

datatype scenario_entry = Baseline | Adjusted scenario_config

definition RATE_SCENARIOS :: "string \<rightharpoonup> scenario_entry" where
  "RATE_SCENARIOS =
     [''ratesStayHigh'' \<mapsto> Baseline,
      ''ratesFallModerately'' \<mapsto> Adjusted ratesFallModerately,
      ''ratesFallSignificantly'' \<mapsto> Adjusted ratesFallSignificantly]"

text \<open>\<^verbatim>\<open>adjustments[termKey] ?? adjustments['HYSA'] ?? 0\<close>: \<open>Some a\<close> when the
  result is the number \<open>a\<close>, \<open>None\<close> when it is an inherited member, which is not
  nullish and so stops the chain.\<close>

definition adjustmentFor :: "scenario_config \<Rightarrow> string \<Rightarrow> real option" where
  "adjustmentFor cfg termKey =
     (case getProperty (adjustments cfg) termKey of
        Own a \<Rightarrow> Some a
      | Inherited \<Rightarrow> None
      | Undefined \<Rightarrow>
          (case getProperty (adjustments cfg) ''HYSA'' of
             Own a \<Rightarrow> Some a
           | Inherited \<Rightarrow> None
           | Undefined \<Rightarrow> Some 0))"

text \<open>Lines 87 to 109 of \<^verbatim>\<open>getRateForYear\<close>: the rate under a scenario that has
  timing data. When the adjustment is not a number, \<^verbatim>\<open>baseApy + adjustment\<close> is a
  string that no number parses from: \<^verbatim>\<open>targetApy\<close> and what is computed from it are
  \<open>None\<close>, and \<^verbatim>\<open>Math.max(floor, currentApy)\<close> is NaN. Before the effect starts,
  \<^verbatim>\<open>currentApy\<close> is the base APY whatever the adjustment is.\<close>

definition scenarioApy ::
  "scenario_config \<Rightarrow> string \<Rightarrow> real \<Rightarrow> int \<Rightarrow> int \<Rightarrow> failure + real" where
  "scenarioApy cfg termKey baseApy year startYear =
     (let adjustment = adjustmentFor cfg termKey;
          targetApy = map_option (\<lambda>a. baseApy + a) adjustment;
          yearsElapsed = year - startYear;
          startEffectElapsed = targetYearStartEffect cfg - 1;
          fullEffectElapsed = targetYearFullEffect cfg - 1;
          adjustmentDuration = fullEffectElapsed - startEffectElapsed;
          currentApy =
            (if yearsElapsed \<ge> fullEffectElapsed then targetApy
             else if yearsElapsed \<ge> startEffectElapsed \<and> adjustmentDuration > 0
             then map_option
                    (\<lambda>target. baseApy + (target - baseApy) *
                       (real_of_int (yearsElapsed - startEffectElapsed + 1) /
                        real_of_int (adjustmentDuration + 1)))
                    targetApy
             else Some baseApy)
      in case currentApy of
           None \<Rightarrow> Inl NotANumber
         | Some current \<Rightarrow> Inr (max (floorApy cfg) current))"

text \<open>\<^verbatim>\<open>getRateForYear(termKey, year, scenarioKey, baseRates, startYear)\<close>. The
  scenario key is \<open>None\<close> when the caller passes \<^verbatim>\<open>undefined\<close> or
  \<^verbatim>\<open>null\<close>; the empty string is falsy as well. A key that names an inherited member
  of \<^verbatim>\<open>RATE_SCENARIOS\<close> passes the test \<^verbatim>\<open>!scenarioConfig\<close>; the member has no
  \<^verbatim>\<open>adjustments\<close>, and reading \<^verbatim>\<open>adjustments[termKey]\<close> of it throws.\<close>

definition baseApyOf :: "rate_table \<Rightarrow> string \<Rightarrow> real option" where
  "baseApyOf baseRates termKey =
     (case baseRates termKey of None \<Rightarrow> None | Some info \<Rightarrow> apy info)"

definition getRateForYear ::
  "string \<Rightarrow> int \<Rightarrow> string option \<Rightarrow> rate_table \<Rightarrow> int \<Rightarrow> failure + real" where
  "getRateForYear termKey year scenarioKey baseRates startYear =
     (case baseApyOf baseRates termKey of
        None \<Rightarrow> Inr 0
      | Some baseApy \<Rightarrow>
          (case scenarioKey of
             None \<Rightarrow> Inr baseApy
           | Some key \<Rightarrow>
               if key = ''ratesStayHigh'' \<or> key = [] then Inr baseApy
               else (case getProperty RATE_SCENARIOS key of
                       Undefined \<Rightarrow> Inr baseApy
                     | Own Baseline \<Rightarrow> Inr baseApy
                     | Own (Adjusted cfg) \<Rightarrow> scenarioApy cfg termKey baseApy year startYear
                     | Inherited \<Rightarrow> Inl TypeError)))"

subsection \<open>Dates, identifiers and the host's power function\<close>

text \<open>The engine reads only \<^verbatim>\<open>getFullYear()\<close> and \<^verbatim>\<open>getMonth()\<close> of a date,
  and moves a date only with \<^verbatim>\<open>addMonths\<close> of date-fns, which keeps the day
  inside the target month. A date is therefore its year and its month index (0 to 11).\<close>

record jsdate =
  fullYear :: int
  monthIndex :: nat

definition addMonths :: "jsdate \<Rightarrow> int \<Rightarrow> jsdate" where
  "addMonths d n =
     (let total = fullYear d * 12 + int (monthIndex d) + n
      in \<lparr> fullYear = total div 12, monthIndex = nat (total mod 12) \<rparr>)"

text \<open>A date string as the engine receives it: absent (falsy), present but rejected by
  \<^verbatim>\<open>parseDateString\<close>, or parsed.\<close>

datatype date_input = NoDate | BadDate | GoodDate jsdate

fun parseDateString :: "date_input \<Rightarrow> jsdate option" where
  "parseDateString NoDate = None"
| "parseDateString BadDate = None"
| "parseDateString (GoodDate d) = Some d"

text \<open>Decimal digits of a number inside a template string.\<close>

fun showNat :: "nat \<Rightarrow> string" where
  "showNat n =
     (if n < 10 then [char_of (48 + n)]
      else showNat (n div 10) @ [char_of (48 + n mod 10)])"

declare showNat.simps [simp del]

text \<open>\<^verbatim>\<open>generateReinvestId\<close>: the module-level \<^verbatim>\<open>reinvestmentCounter\<close> is passed
  in and the incremented counter is returned with the identifier.\<close>

definition generateReinvestId :: "nat \<Rightarrow> string \<Rightarrow> string \<times> nat" where
  "generateReinvestId reinvestmentCounter originalId =
     (originalId @ ''-reinvest-'' @ showNat reinvestmentCounter, reinvestmentCounter + 1)"

text \<open>\<^verbatim>\<open>Math.pow\<close> on the arguments the engine gives it (a positive exponent, since
  durations are validated as positive): repeated multiplication for a whole exponent,
  the real power otherwise. For a negative base and a fractional exponent JavaScript
  yields NaN, which the real numbers do not have.\<close>

definition Math_pow :: "real \<Rightarrow> real \<Rightarrow> real" where
  "Math_pow b e =
     (if 0 \<le> e \<and> e = of_int \<lfloor>e\<rfloor> then b ^ nat \<lfloor>e\<rfloor> else b powr e)"

text \<open>\<^verbatim>\<open>Number(v) || 0\<close> and \<^verbatim>\<open>v || d\<close> on strings.\<close>

definition numberOrZero :: "real option \<Rightarrow> real" where
  "numberOrZero v = (case v of None \<Rightarrow> 0 | Some x \<Rightarrow> x)"

definition orDefault :: "string option \<Rightarrow> string \<Rightarrow> string" where
  "orDefault v d = (case v of None \<Rightarrow> d | Some s \<Rightarrow> if s = [] then d else s)"

subsection \<open>Inputs, tranches and results\<close>

record tranche_input =
  idIn :: "string option"
  termIn :: string
  amountIn :: "real option"
  reinvestmentOptionIn :: "string option"
  reinvestmentTermIn :: "string option"

record withdrawal =
  wdate :: date_input
  wamount :: "real option"

text \<open>A processed tranche. \<open>trancheId\<close> and \<open>termKey\<close> are the fields
  \<^verbatim>\<open>id\<close> and \<^verbatim>\<open>term\<close>. A liquid-account tranche has no
  \<^verbatim>\<open>termMonths\<close> (0 here) and keeps the raw reinvestment fields, which are never
  read.\<close>

record tranche =
  trancheId :: string
  amount :: real
  termKey :: string
  termMonths :: int
  maturityDate :: "jsdate option"
  interestEarned :: real
  valueAtMaturity :: real
  isHYSA :: bool
  reinvestmentOption :: string
  reinvestmentTerm :: string

record year_record =
  year :: int
  maturingValue :: real
  reinvestedValue :: real
  yearlyInterest :: real
  interestFromCDs :: real
  interestFromHYSA :: real
  taxesDue :: real
  cashAvailableStart :: real
  hysaWithdrawalToCoverShortfall :: real
  withdrawalAmount :: real
  netCashFlowYear :: real
  endOfYearCash :: real
  ongoingCDInvestments :: real
  endOfYearHysaBalance :: real
  ongoingInvestmentsTotal :: real
  totalPortfolioValue :: real
  hasShortfall :: bool
  yearEndShortfallAmount :: real

record totals_record =
  totalInterestEarned :: real
  totalTaxesPaid :: real
  totalInterestAfterTax :: real
  finalPortfolioValue :: real

text \<open>The object \<^verbatim>\<open>calculateProjections\<close> returns. \<open>overallShortfall\<close> is its
  field \<^verbatim>\<open>hasShortfall\<close>; \<open>totals\<close> is \<open>None\<close> for the empty object
  \<^verbatim>\<open>{}\<close>; \<open>error\<close> is \<open>None\<close> when the field is absent.\<close>

record projection_result =
  projectionYears :: "year_record list"
  overallShortfall :: bool
  totals :: "totals_record option"
  error :: "string option"

record inputs =
  investmentStartDate :: date_input
  lumpSum :: "real option"
  taxRate :: "real option"
  tranches :: "tranche_input list option"
  withdrawals :: "withdrawal list option"
  interestRates :: "rate_table option"
  rateScenario :: "string option"

subsection \<open>Initial tranche processing\<close>

text \<open>The body of \<^verbatim>\<open>tranches.map((tranche, index) => ...)\<close>. A
  \<^verbatim>\<open>throw new Error(msg)\<close> is \<open>Inl msg\<close>.\<close>

definition initialTranche ::
  "rate_table \<Rightarrow> jsdate \<Rightarrow> nat \<Rightarrow> tranche_input \<Rightarrow> string + tranche" where
  "initialTranche rates parsedStart index t =
     (let tKey = termIn t in
      case baseApyOf rates tKey of
        None \<Rightarrow> Inl (''Missing or invalid rate data for term: '' @ tKey)
      | Some apyPercent \<Rightarrow>
          (let apyFraction = apyPercent / 100;
               tid = orDefault (idIn t) (tKey @ ''-'' @ showNat index);
               principal = numberOrZero (amountIn t)
           in if tKey = ''HYSA'' then
                Inr \<lparr> trancheId = tid, amount = principal, termKey = tKey, termMonths = 0,
                      maturityDate = None, interestEarned = 0, valueAtMaturity = principal,
                      isHYSA = True,
                      reinvestmentOption = orDefault (reinvestmentOptionIn t) [],
                      reinvestmentTerm = orDefault (reinvestmentTermIn t) [] \<rparr>
              else
                (case Option.bind (rates tKey) duration of
                   None \<Rightarrow> Inl (''Invalid duration for term: '' @ tKey)
                 | Some months \<Rightarrow>
                     if months \<le> 0 then Inl (''Invalid duration for term: '' @ tKey)
                     else
                       (let termYears = real_of_int months / 12;
                            value = principal * Math_pow (1 + apyFraction) termYears
                        in Inr \<lparr> trancheId = tid, amount = principal, termKey = tKey,
                                 termMonths = months,
                                 maturityDate = Some (addMonths parsedStart months),
                                 interestEarned = value - principal, valueAtMaturity = value,
                                 isHYSA = False,
                                 reinvestmentOption = orDefault (reinvestmentOptionIn t) ''cash'',
                                 reinvestmentTerm = orDefault (reinvestmentTermIn t) ''12m'' \<rparr>))))"

text \<open>\<^verbatim>\<open>tranches.map\<close>: rows are processed in order and the first throw ends the
  map.\<close>

fun initialTranchesFrom ::
  "rate_table \<Rightarrow> jsdate \<Rightarrow> nat \<Rightarrow> tranche_input list \<Rightarrow> string + tranche list" where
  "initialTranchesFrom rates parsedStart index [] = Inr []"
| "initialTranchesFrom rates parsedStart index (t # ts) =
     (case initialTranche rates parsedStart index t of
        Inl msg \<Rightarrow> Inl msg
      | Inr tr \<Rightarrow>
          (case initialTranchesFrom rates parsedStart (index + 1) ts of
             Inl msg \<Rightarrow> Inl msg
           | Inr trs \<Rightarrow> Inr (tr # trs)))"

subsection \<open>Year range\<close>

definition withdrawalYears :: "withdrawal list \<Rightarrow> int list" where
  "withdrawalYears ws =
     concat (map (\<lambda>w. case parseDateString (wdate w) of None \<Rightarrow> [] | Some d \<Rightarrow> [fullYear d]) ws)"

definition maturityYears :: "tranche list \<Rightarrow> int list" where
  "maturityYears ts =
     concat (map (\<lambda>t. case maturityDate t of None \<Rightarrow> [] | Some d \<Rightarrow> [fullYear d]) ts)"

text \<open>The members of the set \<^verbatim>\<open>allYears\<close>, in insertion order (with repetitions,
  which neither the minimum nor the maximum sees).\<close>

definition allYears :: "int \<Rightarrow> withdrawal list \<Rightarrow> tranche list \<Rightarrow> int list" where
  "allYears startYear ws ts = startYear # withdrawalYears ws @ maturityYears ts"

text \<open>\<^verbatim>\<open>Math.min(...ys)\<close> and \<^verbatim>\<open>Math.max(...ys)\<close> of a list that is not
  empty, as a fold from its first member.\<close>

definition minOf :: "int \<Rightarrow> int list \<Rightarrow> int" where
  "minOf y ys = fold min ys y"

definition maxOf :: "int \<Rightarrow> int list \<Rightarrow> int" where
  "maxOf y ys = fold max ys y"

definition maxInitialTerm :: "tranche list \<Rightarrow> int" where
  "maxInitialTerm ts = maxOf 0 (map termMonths (filter (\<lambda>t. \<not> isHYSA t) ts))"

definition minYearOf :: "int \<Rightarrow> withdrawal list \<Rightarrow> tranche list \<Rightarrow> int" where
  "minYearOf startYear ws ts = minOf startYear (withdrawalYears ws @ maturityYears ts)"

definition maxYearOf :: "int \<Rightarrow> withdrawal list \<Rightarrow> tranche list \<Rightarrow> int" where
  "maxYearOf startYear ws ts =
     max (maxOf startYear (withdrawalYears ws @ maturityYears ts))
         (startYear + \<lceil>real_of_int (maxInitialTerm ts) / 12\<rceil> + 5)"

definition yearRange :: "int \<Rightarrow> withdrawal list \<Rightarrow> tranche list \<Rightarrow> int list" where
  "yearRange startYear ws ts = [minYearOf startYear ws ts .. maxYearOf startYear ws ts]"

subsection \<open>The yearly loop\<close>

text \<open>What the loop reads and never changes.\<close>

record run_env =
  envRates :: rate_table
  envScenario :: "string option"
  envStartYear :: int
  envStartMonth :: nat
  envTaxRate :: real
  envWithdrawals :: "withdrawal list"
  envHysaCount :: nat

text \<open>The variables of one pass of the inner loop over \<^verbatim>\<open>activeCdTranches\<close>.
  \<open>interestCumulative\<close> and \<open>counter\<close> are the outer
  \<^verbatim>\<open>totalInterestEarnedCumulative\<close> and the module-level
  \<^verbatim>\<open>reinvestmentCounter\<close>, which that loop updates.\<close>

record cd_acc =
  maturingValueTotalThisYear :: real
  interestFromMaturingCDsThisYear :: real
  cashFromMaturingThisYear :: real
  newlyReinvestedTranches :: "tranche list"
  hysaValueReinvestedThisYear :: real
  remainingCdTranches :: "tranche list"
  interestCumulative :: real
  counter :: nat

definition toCash :: "cd_acc \<Rightarrow> tranche \<Rightarrow> cd_acc" where
  "toCash acc cd =
     acc\<lparr> cashFromMaturingThisYear := cashFromMaturingThisYear acc + valueAtMaturity cd \<rparr>"

text \<open>The reinvestment term's duration when
  \<^verbatim>\<open>!rateInfo || typeof rateInfo.apy !== 'number' || typeof rateInfo.duration !== 'number' || rateInfo.duration <= 0\<close>
  is false. (The second duration test of the source repeats part of this one and cannot
  fail after it.)\<close>

definition reinvestDuration :: "rate_table \<Rightarrow> string \<Rightarrow> int option" where
  "reinvestDuration rates reinvestTermKey =
     (case rates reinvestTermKey of
        None \<Rightarrow> None
      | Some info \<Rightarrow>
          (case apy info of
             None \<Rightarrow> None
           | Some a \<Rightarrow>
               (case duration info of
                  None \<Rightarrow> None
                | Some months \<Rightarrow> if months \<le> 0 then None else Some months)))"

text \<open>The \<^verbatim>\<open>newCD\<close> case once the term data is valid. The rate is read before the
  identifier is generated, so a failure of \<^verbatim>\<open>getRateForYear\<close> leaves the counter
  as it is.\<close>

definition reinvestAsNewCD ::
  "run_env \<Rightarrow> int \<Rightarrow> cd_acc \<Rightarrow> tranche \<Rightarrow> jsdate \<Rightarrow> int \<Rightarrow> failure + cd_acc" where
  "reinvestAsNewCD env yr acc cd matured newTermMonths =
     (let reinvestTermKey = reinvestmentTerm cd in
      case getRateForYear reinvestTermKey yr (envScenario env) (envRates env) (envStartYear env) of
        Inl f \<Rightarrow> Inl f
      | Inr newApyPercent \<Rightarrow>
          (let newApy = newApyPercent / 100;
               newPrincipal = valueAtMaturity cd;
               newMaturityDate = addMonths matured newTermMonths;
               newTermYears = real_of_int newTermMonths / 12;
               newValueAtMaturity = newPrincipal * Math_pow (1 + newApy) newTermYears;
               newInterestEarned = newValueAtMaturity - newPrincipal;
               (newId, counter') = generateReinvestId (counter acc) (trancheId cd);
               newTranche =
                 \<lparr> trancheId = newId, amount = newPrincipal, termKey = reinvestTermKey,
                   termMonths = newTermMonths, maturityDate = Some newMaturityDate,
                   interestEarned = newInterestEarned, valueAtMaturity = newValueAtMaturity,
                   isHYSA = False, reinvestmentOption = ''cash'', reinvestmentTerm = ''12m'' \<rparr>
           in Inr (acc\<lparr> newlyReinvestedTranches := newlyReinvestedTranches acc @ [newTranche],
                         counter := counter' \<rparr>)))"

text \<open>The \<^verbatim>\<open>switch (cd.reinvestmentOption)\<close>.\<close>

definition reinvest ::
  "run_env \<Rightarrow> int \<Rightarrow> cd_acc \<Rightarrow> tranche \<Rightarrow> jsdate \<Rightarrow> failure + cd_acc" where
  "reinvest env yr acc cd matured =
     (if reinvestmentOption cd = ''hysa'' then
        (if envHysaCount env > 0
         then Inr (acc\<lparr> hysaValueReinvestedThisYear :=
                           hysaValueReinvestedThisYear acc + valueAtMaturity cd \<rparr>)
         else Inr (toCash acc cd))
      else if reinvestmentOption cd = ''newCD'' then
        (case reinvestDuration (envRates env) (reinvestmentTerm cd) of
           None \<Rightarrow> Inr (toCash acc cd)
         | Some newTermMonths \<Rightarrow> reinvestAsNewCD env yr acc cd matured newTermMonths)
      else Inr (toCash acc cd))"

text \<open>The body of \<^verbatim>\<open>for (const cd of activeCdTranches)\<close>.\<close>

definition processCd ::
  "run_env \<Rightarrow> int \<Rightarrow> real \<Rightarrow> cd_acc \<Rightarrow> tranche \<Rightarrow> failure + cd_acc" where
  "processCd env yr cumulativeShortfallIn acc cd =
     (case maturityDate cd of
        None \<Rightarrow> Inr (acc\<lparr> remainingCdTranches := remainingCdTranches acc @ [cd] \<rparr>)
      | Some matured \<Rightarrow>
          if fullYear matured = yr then
            (let acc1 = acc\<lparr> maturingValueTotalThisYear :=
                               maturingValueTotalThisYear acc + valueAtMaturity cd,
                             interestFromMaturingCDsThisYear :=
                               interestFromMaturingCDsThisYear acc + interestEarned cd,
                             interestCumulative := interestCumulative acc + interestEarned cd \<rparr>
             in if cumulativeShortfallIn > 0.01 then Inr (toCash acc1 cd)
                else reinvest env yr acc1 cd matured)
          else Inr (acc\<lparr> remainingCdTranches := remainingCdTranches acc @ [cd] \<rparr>))"

definition startAcc :: "real \<Rightarrow> nat \<Rightarrow> cd_acc" where
  "startAcc interestSoFar counterNow =
     \<lparr> maturingValueTotalThisYear = 0, interestFromMaturingCDsThisYear = 0,
       cashFromMaturingThisYear = 0, newlyReinvestedTranches = [],
       hysaValueReinvestedThisYear = 0, remainingCdTranches = [],
       interestCumulative = interestSoFar, counter = counterNow \<rparr>"

text \<open>The loop over the deposits. It stops at the first failure, which it reports with
  the value the counter has at that moment.\<close>

fun cdLoop ::
  "run_env \<Rightarrow> int \<Rightarrow> real \<Rightarrow> cd_acc \<Rightarrow> tranche list \<Rightarrow> (failure \<times> nat) + cd_acc" where
  "cdLoop env yr cumulativeShortfallIn acc [] = Inr acc"
| "cdLoop env yr cumulativeShortfallIn acc (cd # cds) =
     (case processCd env yr cumulativeShortfallIn acc cd of
        Inl f \<Rightarrow> Inl (f, counter acc)
      | Inr acc' \<Rightarrow> cdLoop env yr cumulativeShortfallIn acc' cds)"

text \<open>The variables that live across years. \<open>reinvestmentCounter\<close> is the
  module-level counter, threaded through the run.\<close>

record sim_state =
  cashBalance :: real
  totalInterestEarnedCumulative :: real
  totalTaxesPaidCumulative :: real
  hasShortfallOverall :: bool
  cumulativeShortfall :: real
  currentHysaBalance :: real
  activeCdTranches :: "tranche list"
  projection :: "year_record list"
  reinvestmentCounter :: nat

text \<open>The two parts of the loop body that read a scenario rate and can fail: the pass
  over the deposits, and the liquid account's interest.\<close>

definition cdPass :: "run_env \<Rightarrow> sim_state \<Rightarrow> int \<Rightarrow> (failure \<times> nat) + cd_acc" where
  "cdPass env s yr =
     cdLoop env yr (cumulativeShortfall s)
       (startAcc (totalInterestEarnedCumulative s) (reinvestmentCounter s))
       (activeCdTranches s)"

definition interestFactor :: "run_env \<Rightarrow> int \<Rightarrow> real" where
  "interestFactor env yr =
     (if yr = envStartYear env then real_of_int (12 - int (envStartMonth env)) / 12 else 1)"

definition hysaInterestThisYear :: "run_env \<Rightarrow> sim_state \<Rightarrow> int \<Rightarrow> failure + real" where
  "hysaInterestThisYear env s yr =
     (if envHysaCount env > 0 \<and> currentHysaBalance s > 0 then
        (case getRateForYear ''HYSA'' yr (envScenario env) (envRates env) (envStartYear env) of
           Inl f \<Rightarrow> Inl f
         | Inr currentHysaApyPercent \<Rightarrow>
             Inr (currentHysaBalance s * (currentHysaApyPercent / 100) * interestFactor env yr))
      else Inr 0)"

text \<open>Each definition below is one local variable of the loop body, as a function of the
  state \<open>s\<close> at the start of the year, the outcome \<open>acc\<close> of the pass over the
  deposits and the liquid interest \<open>h\<close> of the year.\<close>

definition startingCashForYear :: "sim_state \<Rightarrow> real" where
  "startingCashForYear s = cashBalance s - cumulativeShortfall s"

definition nextActiveCdTranches :: "cd_acc \<Rightarrow> tranche list" where
  "nextActiveCdTranches acc = remainingCdTranches acc @ newlyReinvestedTranches acc"

text \<open>\<^verbatim>\<open>currentHysaBalance\<close> after
  \<^verbatim>\<open>currentHysaBalance += hysaValueReinvestedThisYear\<close>.\<close>

definition hysaBalanceAfterReinvest :: "sim_state \<Rightarrow> cd_acc \<Rightarrow> real" where
  "hysaBalanceAfterReinvest s acc = currentHysaBalance s + hysaValueReinvestedThisYear acc"

definition totalYearlyInterest :: "cd_acc \<Rightarrow> real \<Rightarrow> real" where
  "totalYearlyInterest acc h = interestFromMaturingCDsThisYear acc + h"

definition taxesDueThisYear :: "run_env \<Rightarrow> cd_acc \<Rightarrow> real \<Rightarrow> real" where
  "taxesDueThisYear env acc h = totalYearlyInterest acc h * envTaxRate env"

definition yearWithdrawals :: "run_env \<Rightarrow> int \<Rightarrow> withdrawal list" where
  "yearWithdrawals env yr =
     filter (\<lambda>w. case parseDateString (wdate w) of None \<Rightarrow> False | Some d \<Rightarrow> fullYear d = yr)
            (envWithdrawals env)"

definition totalWithdrawalsThisYear :: "run_env \<Rightarrow> int \<Rightarrow> real" where
  "totalWithdrawalsThisYear env yr =
     sum_list (map (\<lambda>w. numberOrZero (wamount w)) (yearWithdrawals env yr))"

definition cashAvailableThisYear :: "sim_state \<Rightarrow> cd_acc \<Rightarrow> real \<Rightarrow> real" where
  "cashAvailableThisYear s acc h = startingCashForYear s + cashFromMaturingThisYear acc + h"

text \<open>\<^verbatim>\<open>netCashFlowBeforeHysaTransfer\<close> as first computed, and the shortfall
  before the liquid account is used.\<close>

definition netCashFlowBeforeHysaTransfer ::
  "run_env \<Rightarrow> sim_state \<Rightarrow> int \<Rightarrow> cd_acc \<Rightarrow> real \<Rightarrow> real" where
  "netCashFlowBeforeHysaTransfer env s yr acc h =
     cashAvailableThisYear s acc h - totalWithdrawalsThisYear env yr - taxesDueThisYear env acc h"

definition shortfallBeforeHysa ::
  "run_env \<Rightarrow> sim_state \<Rightarrow> int \<Rightarrow> cd_acc \<Rightarrow> real \<Rightarrow> real" where
  "shortfallBeforeHysa env s yr acc h =
     (if netCashFlowBeforeHysaTransfer env s yr acc h < 0
      then \<bar>netCashFlowBeforeHysaTransfer env s yr acc h\<bar> else 0)"

definition hysaWithdrawalToCover ::
  "run_env \<Rightarrow> sim_state \<Rightarrow> int \<Rightarrow> cd_acc \<Rightarrow> real \<Rightarrow> real" where
  "hysaWithdrawalToCover env s yr acc h =
     (if shortfallBeforeHysa env s yr acc h > 0 \<and> hysaBalanceAfterReinvest s acc > 0
      then min (shortfallBeforeHysa env s yr acc h) (hysaBalanceAfterReinvest s acc)
      else 0)"

text \<open>The three variables after the block that draws on the liquid account (a draw of 0
  when the block is skipped).\<close>

definition hysaBalanceEndOfYear ::
  "run_env \<Rightarrow> sim_state \<Rightarrow> int \<Rightarrow> cd_acc \<Rightarrow> real \<Rightarrow> real" where
  "hysaBalanceEndOfYear env s yr acc h =
     hysaBalanceAfterReinvest s acc - hysaWithdrawalToCover env s yr acc h"

definition netCashFlowAfterHysaTransfer ::
  "run_env \<Rightarrow> sim_state \<Rightarrow> int \<Rightarrow> cd_acc \<Rightarrow> real \<Rightarrow> real" where
  "netCashFlowAfterHysaTransfer env s yr acc h =
     netCashFlowBeforeHysaTransfer env s yr acc h + hysaWithdrawalToCover env s yr acc h"

definition shortfallAmountThisYear ::
  "run_env \<Rightarrow> sim_state \<Rightarrow> int \<Rightarrow> cd_acc \<Rightarrow> real \<Rightarrow> real" where
  "shortfallAmountThisYear env s yr acc h =
     shortfallBeforeHysa env s yr acc h - hysaWithdrawalToCover env s yr acc h"

definition endOfYearCashOf ::
  "run_env \<Rightarrow> sim_state \<Rightarrow> int \<Rightarrow> cd_acc \<Rightarrow> real \<Rightarrow> real" where
  "endOfYearCashOf env s yr acc h = max 0 (netCashFlowAfterHysaTransfer env s yr acc h)"

definition yearEndedWithShortfall ::
  "run_env \<Rightarrow> sim_state \<Rightarrow> int \<Rightarrow> cd_acc \<Rightarrow> real \<Rightarrow> bool" where
  "yearEndedWithShortfall env s yr acc h = (shortfallAmountThisYear env s yr acc h > 0.01)"

definition maturesAfter :: "int \<Rightarrow> tranche \<Rightarrow> bool" where
  "maturesAfter yr t = (case maturityDate t of None \<Rightarrow> False | Some d \<Rightarrow> fullYear d > yr)"

definition ongoingCDsPrincipal :: "int \<Rightarrow> cd_acc \<Rightarrow> real" where
  "ongoingCDsPrincipal yr acc =
     sum_list (map amount (filter (maturesAfter yr) (nextActiveCdTranches acc)))"

definition ongoingInvestmentsPrincipal ::
  "run_env \<Rightarrow> sim_state \<Rightarrow> int \<Rightarrow> cd_acc \<Rightarrow> real \<Rightarrow> real" where
  "ongoingInvestmentsPrincipal env s yr acc h =
     ongoingCDsPrincipal yr acc + hysaBalanceEndOfYear env s yr acc h"

definition totalPortfolioValueEndOfYear ::
  "run_env \<Rightarrow> sim_state \<Rightarrow> int \<Rightarrow> cd_acc \<Rightarrow> real \<Rightarrow> real" where
  "totalPortfolioValueEndOfYear env s yr acc h =
     ongoingInvestmentsPrincipal env s yr acc h + endOfYearCashOf env s yr acc h"

text \<open>The object of \<^verbatim>\<open>projection.push({...})\<close>.\<close>

definition yearRecord :: "run_env \<Rightarrow> sim_state \<Rightarrow> int \<Rightarrow> cd_acc \<Rightarrow> real \<Rightarrow> year_record" where
  "yearRecord env s yr acc h =
     \<lparr> year = yr,
       maturingValue = maturingValueTotalThisYear acc,
       reinvestedValue =
         hysaValueReinvestedThisYear acc + sum_list (map amount (newlyReinvestedTranches acc)),
       yearlyInterest = totalYearlyInterest acc h,
       interestFromCDs = interestFromMaturingCDsThisYear acc,
       interestFromHYSA = h,
       taxesDue = taxesDueThisYear env acc h,
       cashAvailableStart = cashBalance s + cashFromMaturingThisYear acc + h,
       hysaWithdrawalToCoverShortfall = hysaWithdrawalToCover env s yr acc h,
       withdrawalAmount = totalWithdrawalsThisYear env yr,
       netCashFlowYear = endOfYearCashOf env s yr acc h - cashBalance s,
       endOfYearCash = endOfYearCashOf env s yr acc h,
       ongoingCDInvestments = ongoingCDsPrincipal yr acc,
       endOfYearHysaBalance = hysaBalanceEndOfYear env s yr acc h,
       ongoingInvestmentsTotal = ongoingInvestmentsPrincipal env s yr acc h,
       totalPortfolioValue = totalPortfolioValueEndOfYear env s yr acc h,
       hasShortfall = yearEndedWithShortfall env s yr acc h,
       yearEndShortfallAmount = shortfallAmountThisYear env s yr acc h \<rparr>"

text \<open>The state at the end of a year in which nothing failed.\<close>

definition endOfYear :: "run_env \<Rightarrow> sim_state \<Rightarrow> int \<Rightarrow> cd_acc \<Rightarrow> real \<Rightarrow> sim_state" where
  "endOfYear env s yr acc h =
     \<lparr> cashBalance = endOfYearCashOf env s yr acc h,
       totalInterestEarnedCumulative = interestCumulative acc + h,
       totalTaxesPaidCumulative = totalTaxesPaidCumulative s + taxesDueThisYear env acc h,
       hasShortfallOverall = (hasShortfallOverall s \<or> yearEndedWithShortfall env s yr acc h),
       cumulativeShortfall = shortfallAmountThisYear env s yr acc h,
       currentHysaBalance = hysaBalanceEndOfYear env s yr acc h,
       activeCdTranches = nextActiveCdTranches acc,
       projection = projection s @ [yearRecord env s yr acc h],
       reinvestmentCounter = counter acc \<rparr>"

text \<open>One pass of \<^verbatim>\<open>for (const year of yearRange)\<close>: the state at the start of the
  next year, or the failure that ends the run and the counter it leaves.\<close>

definition yearStep :: "run_env \<Rightarrow> sim_state \<Rightarrow> int \<Rightarrow> (failure \<times> nat) + sim_state" where
  "yearStep env s yr =
     (case cdPass env s yr of
        Inl fc \<Rightarrow> Inl fc
      | Inr acc \<Rightarrow>
          (case hysaInterestThisYear env s yr of
             Inl f \<Rightarrow> Inl (f, counter acc)
           | Inr h \<Rightarrow> Inr (endOfYear env s yr acc h)))"

fun runYears :: "run_env \<Rightarrow> sim_state \<Rightarrow> int list \<Rightarrow> (failure \<times> nat) + sim_state" where
  "runYears env s [] = Inr s"
| "runYears env s (yr # yrs) =
     (case yearStep env s yr of
        Inl fc \<Rightarrow> Inl fc
      | Inr s' \<Rightarrow> runYears env s' yrs)"

subsection \<open>The projection function\<close>

definition initialState :: "tranche list \<Rightarrow> nat \<Rightarrow> sim_state" where
  "initialState initialTranches counterNow =
     \<lparr> cashBalance = 0, totalInterestEarnedCumulative = 0, totalTaxesPaidCumulative = 0,
       hasShortfallOverall = False, cumulativeShortfall = 0,
       currentHysaBalance = sum_list (map amount (filter isHYSA initialTranches)),
       activeCdTranches = filter (\<lambda>t. \<not> isHYSA t) initialTranches,
       projection = [], reinvestmentCounter = counterNow \<rparr>"

definition finalTotals :: "tranche list \<Rightarrow> sim_state \<Rightarrow> totals_record" where
  "finalTotals initialTranches s =
     \<lparr> totalInterestEarned = totalInterestEarnedCumulative s,
       totalTaxesPaid = totalTaxesPaidCumulative s,
       totalInterestAfterTax = totalInterestEarnedCumulative s - totalTaxesPaidCumulative s,
       finalPortfolioValue =
         (if projection s \<noteq> [] then totalPortfolioValue (last (projection s))
          else sum_list (map amount (filter isHYSA initialTranches)) +
               sum_list (map amount (filter (\<lambda>t. \<not> isHYSA t) initialTranches))) \<rparr>"

definition errorResult :: "string \<Rightarrow> projection_result" where
  "errorResult msg =
     \<lparr> projectionYears = [], overallShortfall = False, totals = None, error = Some msg \<rparr>"

definition envOf ::
  "rate_table \<Rightarrow> string option \<Rightarrow> jsdate \<Rightarrow> real \<Rightarrow> withdrawal list \<Rightarrow> tranche list \<Rightarrow> run_env" where
  "envOf rates scenario parsedStart numTaxRate ws initialTranches =
     \<lparr> envRates = rates, envScenario = scenario, envStartYear = fullYear parsedStart,
       envStartMonth = monthIndex parsedStart, envTaxRate = numTaxRate, envWithdrawals = ws,
       envHysaCount = length (filter isHYSA initialTranches) \<rparr>"

text \<open>\<^verbatim>\<open>calculateProjections\<close> after input validation, from the processed
  tranches on: the outcome and the counter the call leaves.\<close>

definition project ::
  "nat \<Rightarrow> rate_table \<Rightarrow> string option \<Rightarrow> jsdate \<Rightarrow> real \<Rightarrow> withdrawal list \<Rightarrow> tranche list
     \<Rightarrow> (failure + projection_result) \<times> nat" where
  "project counterNow rates scenario parsedStart numTaxRate ws initialTranches =
     (let startYear = fullYear parsedStart in
      if allYears startYear ws initialTranches = [] then
        (Inr \<lparr> projectionYears = [], overallShortfall = False, totals = None, error = None \<rparr>,
         counterNow)
      else
        (case runYears (envOf rates scenario parsedStart numTaxRate ws initialTranches)
                (initialState initialTranches counterNow)
                (yearRange startYear ws initialTranches) of
           Inl (f, counterThen) \<Rightarrow> (Inl f, counterThen)
         | Inr final \<Rightarrow>
             (Inr \<lparr> projectionYears = projection final,
                    overallShortfall = hasShortfallOverall final,
                    totals = Some (finalTotals initialTranches final),
                    error = None \<rparr>,
              reinvestmentCounter final)))"

text \<open>\<^verbatim>\<open>calculateProjections\<close>. It takes the module-level counter and returns it
  with its outcome: \<open>Inr r\<close> when the call returns the object \<open>r\<close>, \<open>Inl f\<close>
  when it ends in an uncaught exception or, for \<open>f = NotANumber\<close>, when its numbers
  leave the reals. An absent \<^verbatim>\<open>rateScenario\<close> takes the parameter's default.\<close>

definition calculateProjections ::
  "nat \<Rightarrow> inputs \<Rightarrow> (failure + projection_result) \<times> nat" where
  "calculateProjections counterNow inp =
     (case (investmentStartDate inp, lumpSum inp, taxRate inp,
            tranches inp, withdrawals inp, interestRates inp) of
        (GoodDate parsedStart, Some numLumpSum, Some taxPercent, Some trs, Some ws, Some rates) \<Rightarrow>
          (case initialTranchesFrom rates parsedStart 0 trs of
             Inl msg \<Rightarrow> (Inl (Error msg), counterNow)
           | Inr initialTranches \<Rightarrow>
               project counterNow rates
                 (case rateScenario inp of None \<Rightarrow> Some ''ratesStayHigh'' | Some k \<Rightarrow> Some k)
                 parsedStart (taxPercent / 100) ws initialTranches)
      | (BadDate, Some numLumpSum, Some taxPercent, Some trs, Some ws, Some rates) \<Rightarrow>
          (Inr (errorResult ''Invalid Investment Start Date''), counterNow)
      | _ \<Rightarrow>
          (Inr (errorResult ''Missing or invalid required inputs (Date, Lump Sum, Tax Rate)''),
           counterNow))"


section \<open>Notions used in the statements and proofs\<close>

subsection \<open>Initial rows\<close>

text \<open>\<open>rowOf rates d t tr\<close>: the allocation row \<open>t\<close> is processed into the tranche
  \<open>tr\<close> (at some index).\<close>

definition rowOf :: "rate_table \<Rightarrow> jsdate \<Rightarrow> tranche_input \<Rightarrow> tranche \<Rightarrow> bool" where
  "rowOf rates d t tr = (\<exists>j. initialTranche rates d j t = Inr tr)"

text \<open>A row whose term the rate table does not have, or a row of a fixed term whose
  duration is not a positive number.\<close>

definition rowInvalid :: "rate_table \<Rightarrow> tranche_input \<Rightarrow> bool" where
  "rowInvalid rates t =
     (case rates (termIn t) of
        None \<Rightarrow> True
      | Some info \<Rightarrow>
          termIn t \<noteq> ''HYSA'' \<and> (case duration info of None \<Rightarrow> True | Some m \<Rightarrow> m \<le> 0))"

subsection \<open>Tranches and states that differ in identifiers only\<close>

definition sameButId :: "tranche \<Rightarrow> tranche \<Rightarrow> bool" where
  "sameButId t t' = (t\<lparr> trancheId := [] \<rparr> = t'\<lparr> trancheId := [] \<rparr>)"

definition accAgree :: "cd_acc \<Rightarrow> cd_acc \<Rightarrow> bool" where
  "accAgree a a' =
     (maturingValueTotalThisYear a = maturingValueTotalThisYear a' \<and>
      interestFromMaturingCDsThisYear a = interestFromMaturingCDsThisYear a' \<and>
      cashFromMaturingThisYear a = cashFromMaturingThisYear a' \<and>
      hysaValueReinvestedThisYear a = hysaValueReinvestedThisYear a' \<and>
      interestCumulative a = interestCumulative a' \<and>
      list_all2 sameButId (newlyReinvestedTranches a) (newlyReinvestedTranches a') \<and>
      list_all2 sameButId (remainingCdTranches a) (remainingCdTranches a'))"

definition stateAgree :: "sim_state \<Rightarrow> sim_state \<Rightarrow> bool" where
  "stateAgree s s' =
     (cashBalance s = cashBalance s' \<and>
      totalInterestEarnedCumulative s = totalInterestEarnedCumulative s' \<and>
      totalTaxesPaidCumulative s = totalTaxesPaidCumulative s' \<and>
      hasShortfallOverall s = hasShortfallOverall s' \<and>
      cumulativeShortfall s = cumulativeShortfall s' \<and>
      currentHysaBalance s = currentHysaBalance s' \<and>
      projection s = projection s' \<and>
      list_all2 sameButId (activeCdTranches s) (activeCdTranches s'))"

subsection \<open>Deposits that cannot push the liquid balance below zero\<close>

definition hysaSafe :: "tranche \<Rightarrow> bool" where
  "hysaSafe t = (reinvestmentOption t \<noteq> ''hysa'' \<or> 0 \<le> valueAtMaturity t)"

definition accSafe :: "cd_acc \<Rightarrow> bool" where
  "accSafe acc =
     (0 \<le> hysaValueReinvestedThisYear acc \<and> list_all hysaSafe (newlyReinvestedTranches acc) \<and>
      list_all hysaSafe (remainingCdTranches acc))"

definition stateSafe :: "sim_state \<Rightarrow> bool" where
  "stateSafe s = (0 \<le> currentHysaBalance s \<and> list_all hysaSafe (activeCdTranches s))"


section \<open>Example inputs\<close>

text \<open>A rate table with the liquid account, a twelve-month term and a three-month term
  whose APY lies below the floor of every scenario.\<close>

definition exampleRates :: rate_table where
  "exampleRates =
     [''HYSA'' \<mapsto> \<lparr> apy = Some 3.6, duration = None \<rparr>,
      ''12m'' \<mapsto> \<lparr> apy = Some 4.0, duration = Some 12 \<rparr>,
      ''3m'' \<mapsto> \<lparr> apy = Some 0.05, duration = Some 3 \<rparr>]"

text \<open>January 2025.\<close>

definition exampleStart :: jsdate where
  "exampleStart = \<lparr> fullYear = 2025, monthIndex = 0 \<rparr>"

text \<open>A ladder: 1000 in the liquid account and 1000 in a twelve-month deposit that is
  held as cash at maturity.\<close>

definition ladderRows :: "tranche_input list" where
  "ladderRows =
     [\<lparr> idIn = Some ''liquid'', termIn = ''HYSA'', amountIn = Some 1000,
        reinvestmentOptionIn = None, reinvestmentTermIn = None \<rparr>,
      \<lparr> idIn = Some ''cd-1'', termIn = ''12m'', amountIn = Some 1000,
        reinvestmentOptionIn = None, reinvestmentTermIn = None \<rparr>]"

definition ladderInput :: inputs where
  "ladderInput =
     \<lparr> investmentStartDate = GoodDate exampleStart, lumpSum = Some 2000, taxRate = Some 20,
       tranches = Some ladderRows, withdrawals = Some [],
       interestRates = Some exampleRates, rateScenario = None \<rparr>"

text \<open>The tranches that the rows of the ladder become.\<close>

definition ladderLiquid :: tranche where
  "ladderLiquid =
     \<lparr> trancheId = ''liquid'', amount = 1000, termKey = ''HYSA'', termMonths = 0,
       maturityDate = None, interestEarned = 0, valueAtMaturity = 1000, isHYSA = True,
       reinvestmentOption = [], reinvestmentTerm = [] \<rparr>"

definition ladderCd :: tranche where
  "ladderCd =
     \<lparr> trancheId = ''cd-1'', amount = 1000, termKey = ''12m'', termMonths = 12,
       maturityDate = Some \<lparr> fullYear = 2026, monthIndex = 0 \<rparr>,
       interestEarned = 40, valueAtMaturity = 1040, isHYSA = False,
       reinvestmentOption = ''cash'', reinvestmentTerm = ''12m'' \<rparr>"

text \<open>No holdings and a withdrawal of 100 in the first year: the year ends with a
  shortfall of 100, which the next year carries.\<close>

definition shortfallWithdrawals :: "withdrawal list" where
  "shortfallWithdrawals =
     [\<lparr> wdate = GoodDate \<lparr> fullYear = 2025, monthIndex = 5 \<rparr>, wamount = Some 100 \<rparr>]"

definition shortfallInput :: inputs where
  "shortfallInput =
     \<lparr> investmentStartDate = GoodDate exampleStart, lumpSum = Some 0, taxRate = Some 20,
       tranches = Some [], withdrawals = Some shortfallWithdrawals,
       interestRates = Some exampleRates, rateScenario = None \<rparr>"

definition shortfallEnv :: run_env where
  "shortfallEnv =
     envOf exampleRates (Some ''ratesStayHigh'') exampleStart (1 / 5) shortfallWithdrawals []"

text \<open>The state with which that run enters 2026.\<close>

definition shortfallState :: sim_state where
  "shortfallState = endOfYear shortfallEnv (initialState [] 0) 2025 (startAcc 0 0) 0"

text \<open>A row for a seven-month term, which the rate table does not have.\<close>

definition badTermRow :: tranche_input where
  "badTermRow =
     \<lparr> idIn = Some ''cd-7'', termIn = ''7m'', amountIn = Some 500,
       reinvestmentOptionIn = None, reinvestmentTermIn = None \<rparr>"

definition badTermInput :: inputs where
  "badTermInput =
     \<lparr> investmentStartDate = GoodDate exampleStart, lumpSum = Some 500, taxRate = Some 20,
       tranches = Some [badTermRow], withdrawals = Some [],
       interestRates = Some exampleRates, rateScenario = None \<rparr>"

text \<open>The ladder with a withdrawal dated June 2020, before the portfolio starts.\<close>

definition earlyWithdrawals :: "withdrawal list" where
  "earlyWithdrawals =
     [\<lparr> wdate = GoodDate \<lparr> fullYear = 2020, monthIndex = 5 \<rparr>, wamount = Some 100 \<rparr>]"

definition earlyWithdrawalInput :: inputs where
  "earlyWithdrawalInput =
     \<lparr> investmentStartDate = GoodDate exampleStart, lumpSum = Some 2000, taxRate = Some 20,
       tranches = Some ladderRows, withdrawals = Some earlyWithdrawals,
       interestRates = Some exampleRates, rateScenario = None \<rparr>"

text \<open>A liquid-only portfolio whose base APY of 0.05 is below the floor 0.10 of the
  aggressive scenario.\<close>

definition lowRates :: rate_table where
  "lowRates = [''HYSA'' \<mapsto> \<lparr> apy = Some 0.05, duration = None \<rparr>]"

definition liquidRows :: "tranche_input list" where
  "liquidRows =
     [\<lparr> idIn = Some ''liquid'', termIn = ''HYSA'', amountIn = Some 1000,
        reinvestmentOptionIn = None, reinvestmentTermIn = None \<rparr>]"

definition lowRateInput :: inputs where
  "lowRateInput =
     \<lparr> investmentStartDate = GoodDate exampleStart, lumpSum = Some 1000, taxRate = Some 20,
       tranches = Some liquidRows, withdrawals = Some [],
       interestRates = Some lowRates, rateScenario = None \<rparr>"

text \<open>A twelve-month term at -300 percent, on a deposit of 1000 that moves to the liquid
  account (which holds 100) at maturity.\<close>

definition negativeRates :: rate_table where
  "negativeRates =
     [''HYSA'' \<mapsto> \<lparr> apy = Some 3.6, duration = None \<rparr>,
      ''12m'' \<mapsto> \<lparr> apy = Some (- 300), duration = Some 12 \<rparr>]"

definition negativeRows :: "tranche_input list" where
  "negativeRows =
     [\<lparr> idIn = Some ''liquid'', termIn = ''HYSA'', amountIn = Some 100,
        reinvestmentOptionIn = None, reinvestmentTermIn = None \<rparr>,
      \<lparr> idIn = Some ''cd-1'', termIn = ''12m'', amountIn = Some 1000,
        reinvestmentOptionIn = Some ''hysa'', reinvestmentTermIn = None \<rparr>]"

definition negativeRateInput :: inputs where
  "negativeRateInput =
     \<lparr> investmentStartDate = GoodDate exampleStart, lumpSum = Some 1100, taxRate = Some 0,
       tranches = Some negativeRows, withdrawals = Some [],
       interestRates = Some negativeRates, rateScenario = None \<rparr>"

text \<open>The ladder with a deposit that moves to the liquid account at maturity.\<close>

definition sweepRows :: "tranche_input list" where
  "sweepRows =
     [\<lparr> idIn = Some ''liquid'', termIn = ''HYSA'', amountIn = Some 1000,
        reinvestmentOptionIn = None, reinvestmentTermIn = None \<rparr>,
      \<lparr> idIn = Some ''cd-1'', termIn = ''12m'', amountIn = Some 1000,
        reinvestmentOptionIn = Some ''hysa'', reinvestmentTermIn = None \<rparr>]"

definition sweepInput :: inputs where
  "sweepInput =
     \<lparr> investmentStartDate = GoodDate exampleStart, lumpSum = Some 2000, taxRate = Some 20,
       tranches = Some sweepRows, withdrawals = Some [],
       interestRates = Some exampleRates, rateScenario = None \<rparr>"

text \<open>The two runs of the low-rate portfolio.\<close>

definition lowRateBaseline :: "(failure + projection_result) \<times> nat" where
  "lowRateBaseline = calculateProjections 0 (lowRateInput\<lparr> rateScenario := Some ''ratesStayHigh'' \<rparr>)"

definition lowRateFall :: "(failure + projection_result) \<times> nat" where
  "lowRateFall =
     calculateProjections 0 (lowRateInput\<lparr> rateScenario := Some ''ratesFallSignificantly'' \<rparr>)"

text \<open>The tranches that the rows of the negative-rate example become, the run's constants
  and the state with which it enters 2026.\<close>

definition negativeLiquid :: tranche where
  "negativeLiquid =
     \<lparr> trancheId = ''liquid'', amount = 100, termKey = ''HYSA'', termMonths = 0,
       maturityDate = None, interestEarned = 0, valueAtMaturity = 100, isHYSA = True,
       reinvestmentOption = [], reinvestmentTerm = [] \<rparr>"

definition negativeCd :: tranche where
  "negativeCd =
     \<lparr> trancheId = ''cd-1'', amount = 1000, termKey = ''12m'', termMonths = 12,
       maturityDate = Some \<lparr> fullYear = 2026, monthIndex = 0 \<rparr>,
       interestEarned = - 3000, valueAtMaturity = - 2000, isHYSA = False,
       reinvestmentOption = ''hysa'', reinvestmentTerm = ''12m'' \<rparr>"

definition negativeTranches :: "tranche list" where
  "negativeTranches = [negativeLiquid, negativeCd]"

definition negativeEnv :: run_env where
  "negativeEnv = envOf negativeRates (Some ''ratesStayHigh'') exampleStart 0 [] negativeTranches"

definition negativeAcc2025 :: cd_acc where
  "negativeAcc2025 = (startAcc 0 0)\<lparr> remainingCdTranches := [negativeCd] \<rparr>"

definition negativeState :: sim_state where
  "negativeState =
     endOfYear negativeEnv (initialState negativeTranches 0) 2025 negativeAcc2025 3.6"

text \<open>A rate table with an own entry under the key \<^verbatim>\<open>toString\<close>, and a
  twelve-month deposit that is reinvested in that term.\<close>

definition protoRates :: rate_table where
  "protoRates =
     [''12m'' \<mapsto> \<lparr> apy = Some 4.0, duration = Some 12 \<rparr>,
      ''toString'' \<mapsto> \<lparr> apy = Some 4.0, duration = Some 12 \<rparr>]"

definition protoRows :: "tranche_input list" where
  "protoRows =
     [\<lparr> idIn = Some ''cd-1'', termIn = ''12m'', amountIn = Some 1000,
        reinvestmentOptionIn = Some ''newCD'', reinvestmentTermIn = Some ''toString'' \<rparr>]"

definition protoInput :: inputs where
  "protoInput =
     \<lparr> investmentStartDate = GoodDate exampleStart, lumpSum = Some 1000, taxRate = Some 20,
       tranches = Some protoRows, withdrawals = Some [],
       interestRates = Some protoRates, rateScenario = None \<rparr>"

definition protoCd :: tranche where
  "protoCd =
     \<lparr> trancheId = ''cd-1'', amount = 1000, termKey = ''12m'', termMonths = 12,
       maturityDate = Some \<lparr> fullYear = 2026, monthIndex = 0 \<rparr>,
       interestEarned = 40, valueAtMaturity = 1040, isHYSA = False,
       reinvestmentOption = ''newCD'', reinvestmentTerm = ''toString'' \<rparr>"


section \<open>The rate scenario resolver\<close>

lemma adjusted_key:
  assumes "RATE_SCENARIOS key = Some (Adjusted cfg)"
  shows "key \<noteq> ''ratesStayHigh''" and "key \<noteq> []"
  using assms by (auto simp: RATE_SCENARIOS_def split: if_splits)

lemma getRateForYear_adjusted:
  assumes "baseApyOf baseRates tkey = Some b"
    and "RATE_SCENARIOS key = Some (Adjusted cfg)"
  shows "getRateForYear tkey yr (Some key) baseRates startYear =
         scenarioApy cfg tkey b yr startYear"
  using assms adjusted_key [OF assms(2)] by (simp add: getRateForYear_def getProperty_def)

lemma getRateForYear_baseline:
  assumes "baseApyOf baseRates tkey = Some b"
  shows "getRateForYear tkey yr (Some ''ratesStayHigh'') baseRates startYear = Inr b"
    and "getRateForYear tkey yr None baseRates startYear = Inr b"
  using assms by (simp_all add: getRateForYear_def)

text \<open>The adjustment that \<^verbatim>\<open>ratesFallSignificantly\<close> applies to a term: its own
  entry, else the liquid account's; none for a term named like an inherited member.\<close>

lemma fall_significantly_adjustment:
  "adjustmentFor ratesFallSignificantly tkey = Some a \<Longrightarrow> a = - 2 \<or> a = - 1.5"
  by (auto simp: adjustmentFor_def getProperty_def ratesFallSignificantly_def fixedTermKeys_def
      split: if_splits)

lemma fall_significantly_rate:
  assumes "baseApyOf rates tkey = Some b" and "0.10 \<le> b"
    and "getRateForYear tkey yr (Some ''ratesFallSignificantly'') rates startYear = Inr r"
  shows "0.10 \<le> r" and "r \<le> b" and "startYear \<le> yr \<Longrightarrow> 0.10 < b \<Longrightarrow> r < b"
proof -
  have k: "RATE_SCENARIOS ''ratesFallSignificantly'' = Some (Adjusted ratesFallSignificantly)"
    by (simp add: RATE_SCENARIOS_def)
  have t: "targetYearStartEffect ratesFallSignificantly = 1"
    "targetYearFullEffect ratesFallSignificantly = 2" "floorApy ratesFallSignificantly = 0.10"
    by (simp_all add: ratesFallSignificantly_def)
  note s = assms(3) [unfolded getRateForYear_adjusted [OF assms(1) k]]
  show "0.10 \<le> r"
    using s by (auto simp: scenarioApy_def Let_def t split: option.splits if_splits)
  show "r \<le> b"
    using s assms(2) fall_significantly_adjustment [of tkey]
    by (auto simp: scenarioApy_def Let_def t split: option.splits if_splits)
  show "r < b" if "startYear \<le> yr" "0.10 < b"
    using s that fall_significantly_adjustment [of tkey]
    by (auto simp: scenarioApy_def Let_def t split: option.splits if_splits)
qed

section \<open>The shape of a run\<close>

text \<open>The loop appends one record per year of the range, in order, until a year fails; a
  call that returns either reports a validation error without any year or ran the loop
  over the whole range.\<close>

lemma cdLoop_append:
  "cdLoop env yr sf acc (xs @ ys) =
     (case cdLoop env yr sf acc xs of Inl fc \<Rightarrow> Inl fc | Inr acc' \<Rightarrow> cdLoop env yr sf acc' ys)"
  by (induction xs arbitrary: acc) (auto split: sum.splits)

lemma yearStep_Inr:
  "yearStep env s yr = Inr s' \<longleftrightarrow>
     (\<exists>acc h. cdPass env s yr = Inr acc \<and> hysaInterestThisYear env s yr = Inr h \<and>
        s' = endOfYear env s yr acc h)"
  by (auto simp: yearStep_def split: sum.splits)

lemma runYears_snoc:
  "runYears env s (ys @ [y]) =
     (case runYears env s ys of Inl fc \<Rightarrow> Inl fc | Inr s' \<Rightarrow> yearStep env s' y)"
  by (induction ys arbitrary: s) (auto split: sum.splits)

lemma runYears_Cons_Inr:
  "runYears env s (y # ys) = Inr f \<longleftrightarrow>
     (\<exists>s1. yearStep env s y = Inr s1 \<and> runYears env s1 ys = Inr f)"
  by (auto split: sum.splits)

lemma runYears_take:
  assumes "runYears env s ys = Inr f"
  shows "\<exists>sk. runYears env s (take k ys) = Inr sk"
  using assms
proof (induction ys arbitrary: s k)
  case Nil
  then show ?case by simp
next
  case (Cons y ys)
  then show ?case
    by (cases k) (auto split: sum.splits)
qed

lemma projection_endOfYear:
  "projection (endOfYear env s y acc h) = projection s @ [yearRecord env s y acc h]"
  by (simp add: endOfYear_def)


lemma years_runYears:
  assumes "runYears env s ys = Inr f"
  shows "map year (projection f) = map year (projection s) @ ys"
  using assms
proof (induction ys arbitrary: s)
  case Nil
  then show ?case by simp
next
  case (Cons y ys)
  from Cons.prems obtain s1 acc h where
    s1: "s1 = endOfYear env s y acc h" and r: "runYears env s1 ys = Inr f"
    by (auto simp: yearStep_Inr split: sum.splits)
  show ?case
    by (simp add: Cons.IH [OF r] s1 projection_endOfYear yearRecord_def)
qed

lemma length_projection_runYears:
  assumes "runYears env s ys = Inr f"
  shows "length (projection f) = length (projection s) + length ys"
  using arg_cong [OF years_runYears [OF assms], of length] by simp

lemma projection_prefix:
  assumes "runYears env s ys = Inr f"
  shows "take (length (projection s)) (projection f) = projection s"
  using assms
proof (induction ys arbitrary: s)
  case Nil
  then show ?case by simp
next
  case (Cons y ys)
  from Cons.prems obtain s1 acc h where
    s1: "s1 = endOfYear env s y acc h" and r: "runYears env s1 ys = Inr f"
    by (auto simp: yearStep_Inr split: sum.splits)
  have "take (length (projection s)) (take (length (projection s1)) (projection f)) =
        take (length (projection s)) (projection s1)"
    by (simp only: Cons.IH [OF r])
  then show ?case by (simp add: s1 projection_endOfYear min_def)
qed

lemma nth_projection_runYears:
  assumes "runYears env s ys = Inr f" and "projection s = []" and "k < length ys"
  shows "\<exists>sk acc h. runYears env s (take k ys) = Inr sk \<and> cdPass env sk (ys ! k) = Inr acc \<and>
           hysaInterestThisYear env sk (ys ! k) = Inr h \<and>
           projection f ! k = yearRecord env sk (ys ! k) acc h"
  using assms
proof (induction ys arbitrary: k f rule: rev_induct)
  case Nil
  then show ?case by simp
next
  case (snoc y ys)
  from snoc.prems(1) obtain s' where
    s': "runYears env s ys = Inr s'" and st: "yearStep env s' y = Inr f"
    by (auto simp: runYears_snoc split: sum.splits)
  from st obtain acc h where
    c: "cdPass env s' y = Inr acc" and hi: "hysaInterestThisYear env s' y = Inr h"
    and f: "f = endOfYear env s' y acc h"
    by (auto simp: yearStep_Inr)
  have len: "length (projection s') = length ys"
    using length_projection_runYears [OF s'] snoc.prems(2) by simp
  show ?case
  proof (cases "k < length ys")
    case True
    from snoc.IH [OF s' snoc.prems(2) True] True show ?thesis
      by (auto simp: f projection_endOfYear nth_append len)
  next
    case False
    with snoc.prems(3) have "k = length ys" by simp
    then show ?thesis
      using s' c hi by (simp add: f projection_endOfYear nth_append len)
  qed
qed

lemma calculateProjections_returns:
  assumes "calculateProjections c inp = (Inr res, c')"
  shows "(projectionYears res = [] \<and> error res \<noteq> None \<and> totals res = None \<and> c' = c) \<or>
         (\<exists>d numLumpSum taxPercent trs ws rates its.
            investmentStartDate inp = GoodDate d \<and> lumpSum inp = Some numLumpSum \<and>
            taxRate inp = Some taxPercent \<and> tranches inp = Some trs \<and>
            withdrawals inp = Some ws \<and> interestRates inp = Some rates \<and>
            initialTranchesFrom rates d 0 trs = Inr its \<and>
            project c rates (case rateScenario inp of None \<Rightarrow> Some ''ratesStayHigh'' | Some k \<Rightarrow> Some k)
              d (taxPercent / 100) ws its = (Inr res, c'))"
  using assms
  by (auto simp: calculateProjections_def errorResult_def
      split: date_input.splits option.splits sum.splits)

lemma project_returns:
  assumes "project c rates scenario d tax ws its = (Inr res, c')"
  shows "\<exists>final. runYears (envOf rates scenario d tax ws its) (initialState its c)
                    (yearRange (fullYear d) ws its) = Inr final \<and>
           res = \<lparr> projectionYears = projection final,
                   overallShortfall = hasShortfallOverall final,
                   totals = Some (finalTotals its final), error = None \<rparr> \<and>
           c' = reinvestmentCounter final"
  using assms by (auto simp: project_def Let_def allYears_def split: sum.splits prod.splits)


lemma calculateProjections_runs:
  assumes "investmentStartDate inp = GoodDate d" and "lumpSum inp = Some numLumpSum"
    and "taxRate inp = Some taxPercent" and "tranches inp = Some trs"
    and "withdrawals inp = Some ws" and "interestRates inp = Some rates"
    and "initialTranchesFrom rates d 0 trs = Inr its"
  shows "calculateProjections c inp =
           project c rates
             (case rateScenario inp of None \<Rightarrow> Some ''ratesStayHigh'' | Some k \<Rightarrow> Some k)
             d (taxPercent / 100) ws its"
  using assms by (simp add: calculateProjections_def)

lemma returns_project:
  assumes "calculateProjections c inp = (Inr res, c')"
    and "investmentStartDate inp = GoodDate d" and "lumpSum inp = Some numLumpSum"
    and "taxRate inp = Some taxPercent" and "tranches inp = Some trs"
    and "withdrawals inp = Some ws" and "interestRates inp = Some rates"
  shows "\<exists>its. initialTranchesFrom rates d 0 trs = Inr its \<and>
           project c rates (case rateScenario inp of None \<Rightarrow> Some ''ratesStayHigh'' | Some k \<Rightarrow> Some k)
             d (taxPercent / 100) ws its = (Inr res, c')"
  using assms
  by (auto simp: calculateProjections_def split: sum.splits)

section \<open>Runs that return\<close>

text \<open>The yearly loop fails only where \<^verbatim>\<open>getRateForYear\<close> does.\<close>

lemma processCd_total:
  assumes "\<And>tkey. \<exists>r. getRateForYear tkey yr (envScenario env) (envRates env) (envStartYear env) = Inr r"
  shows "\<exists>acc'. processCd env yr sf acc cd = Inr acc'"
proof -
  from assms [of "reinvestmentTerm cd"] obtain r where
    "getRateForYear (reinvestmentTerm cd) yr (envScenario env) (envRates env) (envStartYear env) = Inr r"
    by blast
  then show ?thesis
    by (simp add: processCd_def reinvest_def reinvestAsNewCD_def generateReinvestId_def Let_def
        split: option.splits)
qed

lemma cdLoop_total:
  assumes "\<And>tkey. \<exists>r. getRateForYear tkey yr (envScenario env) (envRates env) (envStartYear env) = Inr r"
  shows "\<exists>acc'. cdLoop env yr sf acc cds = Inr acc'"
proof (induction cds arbitrary: acc)
  case Nil
  then show ?case by simp
next
  case (Cons cd cds)
  from processCd_total [OF assms, of sf acc cd] obtain acc1 where
    "processCd env yr sf acc cd = Inr acc1" by blast
  with Cons [of acc1] show ?case by simp
qed

lemma runYears_total:
  assumes "\<And>tkey yr. \<exists>r. getRateForYear tkey yr (envScenario env) (envRates env) (envStartYear env) = Inr r"
  shows "\<exists>f. runYears env s ys = Inr f"
proof (induction ys arbitrary: s)
  case Nil
  then show ?case by simp
next
  case (Cons y ys)
  from cdLoop_total [OF assms, of y] obtain acc where c: "cdPass env s y = Inr acc"
    unfolding cdPass_def by blast
  from assms [of "''HYSA''" y] obtain r where
    "getRateForYear ''HYSA'' y (envScenario env) (envRates env) (envStartYear env) = Inr r"
    by blast
  then have "hysaInterestThisYear env s y =
      Inr (if envHysaCount env > 0 \<and> currentHysaBalance s > 0
           then currentHysaBalance s * (r / 100) * interestFactor env y else 0)"
    by (simp add: hysaInterestThisYear_def)
  then obtain h where h: "hysaInterestThisYear env s y = Inr h" by blast
  from Cons [of "endOfYear env s y acc h"] c h show ?case
    by (simp add: yearStep_def)
qed

lemma getRateForYear_baseline_total:
  "\<exists>r. getRateForYear tkey yr (Some ''ratesStayHigh'') rates sy = Inr r"
  by (simp add: getRateForYear_def split: option.splits)

text \<open>Under a scenario of the table, the resolver yields a number whenever the rate table
  has no entry named like an inherited member.\<close>

lemma getRateForYear_own_total:
  assumes "RATE_SCENARIOS key = Some (Adjusted cfg)" and "adjustments cfg ''HYSA'' = Some a"
    and "\<And>k. k \<in> set objectPrototypeNames \<Longrightarrow> rates k = None"
  shows "\<exists>r. getRateForYear tkey yr (Some key) rates sy = Inr r"
proof (cases "baseApyOf rates tkey")
  case None
  then show ?thesis by (simp add: getRateForYear_def)
next
  case (Some b)
  then have "rates tkey \<noteq> None" by (auto simp: baseApyOf_def split: option.splits)
  with assms(3) [of tkey] have "tkey \<notin> set objectPrototypeNames" by auto
  then have "\<exists>x. adjustmentFor cfg tkey = Some x"
    using assms(2) by (auto simp: adjustmentFor_def getProperty_def split: option.splits)
  then show ?thesis
    by (auto simp: getRateForYear_adjusted [OF Some assms(1)] scenarioApy_def Let_def)
qed

lemma project_runs:
  assumes "\<And>tkey yr. \<exists>r. getRateForYear tkey yr scenario rates (fullYear d) = Inr r"
  shows "\<exists>res c'. project c rates scenario d tax ws its = (Inr res, c') \<and> error res = None"
proof -
  have "\<exists>f. runYears (envOf rates scenario d tax ws its) (initialState its c)
              (yearRange (fullYear d) ws its) = Inr f"
    by (rule runYears_total) (simp add: envOf_def assms)
  then show ?thesis
    by (auto simp: project_def Let_def allYears_def)
qed

lemma project_error_free:
  assumes "project c rates scenario d tax ws its = (Inr res, c')"
  shows "error res = None"
  using project_returns [OF assms] by auto

section \<open>Initial tranches\<close>

lemma Math_pow_nonneg: "0 \<le> b \<Longrightarrow> 0 \<le> Math_pow b e"
  by (simp add: Math_pow_def)

lemma Math_pow_ge_one: "1 \<le> b \<Longrightarrow> 0 \<le> e \<Longrightarrow> 1 \<le> Math_pow b e"
  by (simp add: Math_pow_def ge_one_powr_ge_zero)

lemma Math_pow_mono: "0 \<le> a \<Longrightarrow> a \<le> b \<Longrightarrow> 0 \<le> e \<Longrightarrow> Math_pow a e \<le> Math_pow b e"
  by (simp add: Math_pow_def power_mono powr_mono2)

lemma Math_pow_strict_mono: "0 \<le> a \<Longrightarrow> a < b \<Longrightarrow> 0 < e \<Longrightarrow> Math_pow a e < Math_pow b e"
proof -
  assume a: "0 \<le> a" "a < b" "0 < e"
  show ?thesis
  proof (cases "e = of_int \<lfloor>e\<rfloor>")
    case True
    with a(3) have "0 < \<lfloor>e\<rfloor>" by linarith
    then have "0 < nat \<lfloor>e\<rfloor>" by simp
    with a True show ?thesis
      by (simp add: Math_pow_def power_strict_mono)
  next
    case False
    with a show ?thesis
      by (simp add: Math_pow_def powr_less_mono2)
  qed
qed

lemma initialTranchesFrom_rows:
  assumes "initialTranchesFrom rates d i trs = Inr its"
  shows "list_all2 (rowOf rates d) trs its"
  using assms
proof (induction trs arbitrary: i its)
  case Nil
  then show ?case by simp
next
  case (Cons t ts)
  then show ?case
    by (auto simp: rowOf_def split: sum.splits)
qed

lemma rowOf_cases:
  assumes "rowOf rates d t tr"
  obtains (liquid) "termIn t = ''HYSA''" "isHYSA tr" "maturityDate tr = None"
      "amount tr = numberOrZero (amountIn t)"
  | (fixed) a m where "termIn t \<noteq> ''HYSA''" "\<not> isHYSA tr"
      "baseApyOf rates (termIn t) = Some a" "0 < m"
      "maturityDate tr = Some (addMonths d m)"
      "amount tr = numberOrZero (amountIn t)"
      "valueAtMaturity tr = numberOrZero (amountIn t) * Math_pow (1 + a / 100) (real_of_int m / 12)"
      "interestEarned tr = valueAtMaturity tr - numberOrZero (amountIn t)"
      "reinvestmentOption tr = orDefault (reinvestmentOptionIn t) ''cash''"
      "reinvestmentTerm tr = orDefault (reinvestmentTermIn t) ''12m''"
proof -
  from assms obtain j where j: "initialTranche rates d j t = Inr tr"
    by (auto simp: rowOf_def)
  show thesis
  proof (cases "termIn t = ''HYSA''")
    case True
    with j show thesis
      by (intro liquid) (auto simp: initialTranche_def Let_def split: option.splits)
  next
    case False
    with j show thesis
      by (auto simp: initialTranche_def Let_def split: option.splits if_splits intro!: fixed)
  qed
qed


lemma hysa_total:
  assumes "list_all2 (rowOf rates d) trs its"
  shows "sum_list (map amount (filter isHYSA its)) =
         sum_list (map (\<lambda>t. numberOrZero (amountIn t)) (filter (\<lambda>t. termIn t = ''HYSA'') trs))"
  using assms
proof (induction trs its rule: list_all2_induct)
  case Nil
  then show ?case by simp
next
  case (Cons t ts tr trs)
  from Cons(1) show ?case
    by (cases rule: rowOf_cases) (simp_all add: Cons.IH)
qed


text \<open>The example portfolios are processed without an error, and their runs under the
  baseline return a result.\<close>

lemma ladder_tranches: "\<exists>its. initialTranchesFrom exampleRates exampleStart 0 ladderRows = Inr its"
  by (simp add: ladderRows_def initialTranche_def baseApyOf_def exampleRates_def orDefault_def
      Let_def)


lemma early_runs:
  "\<exists>res c'. calculateProjections c earlyWithdrawalInput = (Inr res, c') \<and> error res = None"
proof -
  from ladder_tranches obtain its where
    i: "initialTranchesFrom exampleRates exampleStart 0 ladderRows = Inr its" by blast
  show ?thesis
    using calculateProjections_runs [OF _ _ _ _ _ _ i, of earlyWithdrawalInput 2000 20 earlyWithdrawals c]
      project_runs [OF getRateForYear_baseline_total]
    by (simp add: earlyWithdrawalInput_def)
qed

section \<open>Invalid rows\<close>

lemma rowInvalid_throws:
  assumes "rowInvalid rates t"
  shows "\<exists>msg. initialTranche rates d i t = Inl msg"
  using assms
  by (auto simp: rowInvalid_def initialTranche_def baseApyOf_def Let_def split: option.splits)

lemma initialTranchesFrom_throws:
  assumes "t \<in> set trs" and "rowInvalid rates t"
  shows "\<exists>msg. initialTranchesFrom rates d i trs = Inl msg"
  using assms
proof (induction trs arbitrary: i)
  case Nil
  then show ?case by simp
next
  case (Cons x xs)
  show ?case
  proof (cases "initialTranche rates d i x")
    case (Inl msg)
    then show ?thesis by simp
  next
    case (Inr tr)
    with Cons.prems rowInvalid_throws [of rates x d i] have "t \<in> set xs" by auto
    from Cons.IH [OF this Cons.prems(2), of "i + 1"] Inr show ?thesis by auto
  qed
qed

text \<open>Claim C2, amended. When the top-level inputs are valid and some allocation row names
  a term that the rate table does not have, or a row of a fixed term names a term whose
  duration is not a positive number, \<^verbatim>\<open>calculateProjections\<close> ends in an uncaught
  \<^verbatim>\<open>Error\<close>: it returns no result object, neither a partial one nor the
  error-result shape, and leaves the reinvestment counter as it was.\<close>

theorem invalid_row_throws:
  assumes "investmentStartDate inp = GoodDate d" and "lumpSum inp = Some numLumpSum"
    and "taxRate inp = Some taxPercent" and "tranches inp = Some trs"
    and "withdrawals inp = Some ws" and "interestRates inp = Some rates"
    and "t \<in> set trs" and "rowInvalid rates t"
  shows "\<exists>msg. calculateProjections c inp = (Inl (Error msg), c)"
  using initialTranchesFrom_throws [OF assms(7,8), of d 0] assms(1-6)
  by (auto simp: calculateProjections_def)

text \<open>A row for a seven-month term, against a table without that term.\<close>

theorem invalid_row_throws_witness:
  "\<exists>msg. calculateProjections 0 badTermInput = (Inl (Error msg), 0)"
proof -
  have r: "rowInvalid exampleRates badTermRow"
    by (simp add: rowInvalid_def badTermRow_def exampleRates_def)
  show ?thesis
    by (rule invalid_row_throws [of badTermInput exampleStart 500 20 "[badTermRow]" "[]"
          exampleRates badTermRow 0])
       (simp_all add: badTermInput_def r)
qed

text \<open>Claim C2 as stated fails on that input: the call does not return the object
  \<^verbatim>\<open>{ projectionYears: [], error }\<close>, it throws.\<close>

theorem invalid_row_counterexample:
  "rowInvalid exampleRates badTermRow \<and>
   fst (calculateProjections 0 badTermInput) =
     Inl (Error ''Missing or invalid rate data for term: 7m'')"
  by (simp add: rowInvalid_def badTermRow_def exampleRates_def calculateProjections_def
      badTermInput_def initialTranche_def baseApyOf_def Let_def)

section \<open>The year range\<close>

lemma minOf_Min: "minOf y ys = Min (insert y (set ys))"
  using Min.set_eq_fold [of y ys] by (simp add: minOf_def)

lemma maxOf_Max: "maxOf y ys = Max (insert y (set ys))"
  using Max.set_eq_fold [of y ys] by (simp add: maxOf_def)

lemma yearRange_first:
  "yearRange startYear ws its \<noteq> [] \<and>
   hd (yearRange startYear ws its) = minYearOf startYear ws its"
proof -
  have a: "minYearOf startYear ws its \<le> startYear"
    by (simp add: minYearOf_def minOf_Min)
  have b: "startYear \<le> maxYearOf startYear ws its"
    by (simp add: maxYearOf_def maxOf_Max le_max_iff_disj)
  from a b have "minYearOf startYear ws its \<le> maxYearOf startYear ws its" by simp
  then show ?thesis
    by (simp add: yearRange_def upto_rec1)
qed




lemma Math_pow_one: "Math_pow b 1 = b"
  by (simp add: Math_pow_def)

lemma ladder_its:
  "initialTranchesFrom exampleRates exampleStart 0 ladderRows = Inr [ladderLiquid, ladderCd]"
  by (simp add: ladderRows_def initialTranche_def baseApyOf_def exampleRates_def orDefault_def
      Let_def numberOrZero_def Math_pow_one addMonths_def exampleStart_def ladderLiquid_def
      ladderCd_def)

lemma proto_its:
  "initialTranchesFrom protoRates exampleStart 0 protoRows = Inr [protoCd]"
  by (simp add: protoRows_def initialTranche_def baseApyOf_def protoRates_def orDefault_def
      Let_def numberOrZero_def Math_pow_one addMonths_def exampleStart_def protoCd_def)

text \<open>A run whose first year fails, fails.\<close>

lemma runYears_first_fails:
  assumes "ys \<noteq> []" and "yearStep env s (hd ys) = Inl fc"
  shows "runYears env s ys = Inl fc"
  using assms by (cases ys) simp_all

lemma project_fails:
  assumes "runYears (envOf rates scenario d tax ws its) (initialState its c)
             (yearRange (fullYear d) ws its) = Inl (f, c')"
  shows "project c rates scenario d tax ws its = (Inl f, c')"
  using assms by (simp add: project_def Let_def allYears_def)

section \<open>The first simulated year\<close>

lemma early_first_record:
  assumes "calculateProjections 0 earlyWithdrawalInput = (Inr res, c')"
  shows "year (hd (projectionYears res)) = 2020 \<and> interestFromHYSA (hd (projectionYears res)) = 36"
proof -
  let ?env = "envOf exampleRates (Some ''ratesStayHigh'') exampleStart (1 / 5) earlyWithdrawals
                [ladderLiquid, ladderCd]"
  let ?s0 = "initialState [ladderLiquid, ladderCd] 0"
  let ?ys = "yearRange 2025 earlyWithdrawals [ladderLiquid, ladderCd]"
  have p: "project 0 exampleRates (Some ''ratesStayHigh'') exampleStart (1 / 5) earlyWithdrawals
             [ladderLiquid, ladderCd] = (Inr res, c')"
    using assms by (simp add: calculateProjections_def earlyWithdrawalInput_def ladder_its)
  from project_returns [OF p] obtain final where
    f: "runYears ?env ?s0 ?ys = Inr final" and r: "projectionYears res = projection final"
    by (auto simp: exampleStart_def)
  have m: "minYearOf 2025 earlyWithdrawals [ladderLiquid, ladderCd] = 2020"
    by (simp add: minYearOf_def minOf_def withdrawalYears_def maturityYears_def
        earlyWithdrawals_def ladderLiquid_def ladderCd_def)
  have ne: "?ys \<noteq> []" and h: "hd ?ys = 2020"
    using yearRange_first [of 2025 earlyWithdrawals "[ladderLiquid, ladderCd]"] m by simp_all
  then have k: "0 < length ?ys" and y0: "?ys ! 0 = 2020" by (simp_all add: hd_conv_nth)
  have e: "projection ?s0 = []" by (simp add: initialState_def)
  from nth_projection_runYears [OF f e k] obtain acc hy where
    hi: "hysaInterestThisYear ?env ?s0 2020 = Inr hy"
    and rec: "projection final ! 0 = yearRecord ?env ?s0 2020 acc hy"
    by (auto simp: y0)
  have "hysaInterestThisYear ?env ?s0 2020 = Inr 36"
    by (simp add: hysaInterestThisYear_def envOf_def initialState_def ladderLiquid_def
        ladderCd_def getRateForYear_def baseApyOf_def exampleRates_def interestFactor_def
        exampleStart_def)
  with hi have hy: "hy = 36" by simp
  have "projection final \<noteq> []"
    using length_projection_runYears [OF f] ne by auto
  then have "hd (projection final) = projection final ! 0" by (simp add: hd_conv_nth)
  then show ?thesis by (simp add: r rec yearRecord_def hy)
qed

text \<open>Claim C3 at the ladder that starts in January 2025 and has a withdrawal dated June
  2020. The planner starts the simulation in 2020, five years before the portfolio
  exists, and the first record already credits a full year of liquid interest (36 on the
  1000 that is only deposited in 2025), although the loop treats the start year as the
  first, partial, year.\<close>

theorem simulation_starts_before_portfolio:
  "fullYear exampleStart = 2025 \<and>
   investmentStartDate earlyWithdrawalInput = GoodDate exampleStart \<and>
   year (hd (projectionYears (projr (fst (calculateProjections 0 earlyWithdrawalInput))))) = 2020 \<and>
   interestFromHYSA (hd (projectionYears (projr (fst (calculateProjections 0 earlyWithdrawalInput))))) = 36"
proof -
  from early_runs [of 0] obtain res c' where
    r: "calculateProjections 0 earlyWithdrawalInput = (Inr res, c')"
    by blast
  have s: "fullYear exampleStart = 2025" by (simp add: exampleStart_def)
  have i: "investmentStartDate earlyWithdrawalInput = GoodDate exampleStart"
    by (simp add: earlyWithdrawalInput_def)
  from early_first_record [OF r] s i show ?thesis by (simp add: r)
qed

section \<open>Keys named like members of the object prototype\<close>

text \<open>Claim C6 at the scenario id \<^verbatim>\<open>constructor\<close>, which is not a scenario of the
  table. The lookup \<^verbatim>\<open>RATE_SCENARIOS[scenarioKey]\<close> finds the inherited member, the
  guard for unknown scenarios does not fire, and the resolver throws a
  \<^verbatim>\<open>TypeError\<close> where the claim has it return the base APY (4 for the twelve-month
  term). A projection of the ladder under that id ends in the same exception, in its
  first year, when it reads the liquid account's rate.\<close>

theorem unknown_scenario_throws:
  "baseApyOf exampleRates ''12m'' = Some 4 \<and>
   RATE_SCENARIOS ''constructor'' = None \<and>
   getRateForYear ''12m'' 2026 (Some ''constructor'') exampleRates 2025 = Inl TypeError \<and>
   calculateProjections 0 (ladderInput\<lparr> rateScenario := Some ''constructor'' \<rparr>) =
     (Inl TypeError, 0)"
proof -
  let ?env = "envOf exampleRates (Some ''constructor'') exampleStart (1 / 5) []
                [ladderLiquid, ladderCd]"
  let ?s0 = "initialState [ladderLiquid, ladderCd] 0"
  let ?ys = "yearRange 2025 [] [ladderLiquid, ladderCd]"
  have a: "baseApyOf exampleRates ''12m'' = Some 4"
    by (simp add: baseApyOf_def exampleRates_def)
  have b: "RATE_SCENARIOS ''constructor'' = None"
    by (simp add: RATE_SCENARIOS_def)
  have c: "getRateForYear ''12m'' 2026 (Some ''constructor'') exampleRates 2025 = Inl TypeError"
    by (simp add: getRateForYear_def a getProperty_def b objectPrototypeNames_def)
  have m: "minYearOf 2025 [] [ladderLiquid, ladderCd] = 2025"
    by (simp add: minYearOf_def minOf_def withdrawalYears_def maturityYears_def
        ladderLiquid_def ladderCd_def)
  have ne: "?ys \<noteq> []" and h: "hd ?ys = 2025"
    using yearRange_first [of 2025 "[]" "[ladderLiquid, ladderCd]"] m by simp_all
  have cd: "cdPass ?env ?s0 2025 = Inr ((startAcc 0 0)\<lparr> remainingCdTranches := [ladderCd] \<rparr>)"
    by (simp add: cdPass_def initialState_def ladderLiquid_def processCd_def)
       (simp add: ladderCd_def startAcc_def)
  have hy: "hysaInterestThisYear ?env ?s0 2025 = Inl TypeError"
    by (simp add: hysaInterestThisYear_def envOf_def initialState_def ladderLiquid_def
        ladderCd_def getRateForYear_def baseApyOf_def exampleRates_def getProperty_def b
        objectPrototypeNames_def)
  have "yearStep ?env ?s0 (hd ?ys) = Inl (TypeError, 0)"
    by (simp add: h yearStep_def cd hy startAcc_def)
  from project_fails [of exampleRates "Some ''constructor''" exampleStart "1 / 5" "[]"
      "[ladderLiquid, ladderCd]" 0 TypeError 0]
    runYears_first_fails [OF ne this]
  have "project 0 exampleRates (Some ''constructor'') exampleStart (1 / 5) []
          [ladderLiquid, ladderCd] = (Inl TypeError, 0)"
    by (simp add: exampleStart_def)
  then have d: "calculateProjections 0 (ladderInput\<lparr> rateScenario := Some ''constructor'' \<rparr>) =
     (Inl TypeError, 0)"
    by (simp add: calculateProjections_def ladderInput_def ladder_its)
  from a b c d show ?thesis by blast
qed

text \<open>The run of the deposit that is reinvested in the term \<^verbatim>\<open>toString\<close>, under a
  scenario of the table: the first year passes, and in 2026 the deposit matures and the
  rate of its new term is not a number.\<close>

lemma proto_run:
  assumes k: "RATE_SCENARIOS key = Some (Adjusted cfg)"
    and n: "scenarioApy cfg ''toString'' 4 2026 2025 = Inl NotANumber"
  shows "calculateProjections 0 (protoInput\<lparr> rateScenario := Some key \<rparr>) = (Inl NotANumber, 0)"
proof -
  let ?env = "envOf protoRates (Some key) exampleStart (1 / 5) [] [protoCd]"
  let ?s0 = "initialState [protoCd] 0"
  let ?a1 = "(startAcc 0 0)\<lparr> remainingCdTranches := [protoCd] \<rparr>"
  let ?s1 = "endOfYear ?env ?s0 2025 ?a1 0"
  have b: "baseApyOf protoRates ''toString'' = Some 4"
    by (simp add: baseApyOf_def protoRates_def)
  have g: "getRateForYear ''toString'' 2026 (Some key) protoRates 2025 = Inl NotANumber"
    by (simp add: getRateForYear_adjusted [OF b k] n)
  have ys: "yearRange 2025 [] [protoCd] = 2025 # 2026 # [2027 .. 2031]"
    by (simp add: yearRange_def minYearOf_def maxYearOf_def minOf_def maxOf_def
        withdrawalYears_def maturityYears_def maxInitialTerm_def protoCd_def upto_rec1)
  have c1: "cdPass ?env ?s0 2025 = Inr ?a1"
    by (simp add: cdPass_def initialState_def processCd_def protoCd_def startAcc_def)
  have h1: "hysaInterestThisYear ?env ?s0 2025 = Inr 0"
    by (simp add: hysaInterestThisYear_def envOf_def protoCd_def)
  have s1: "activeCdTranches ?s1 = [protoCd]" "cumulativeShortfall ?s1 = 0"
    "totalInterestEarnedCumulative ?s1 = 0" "reinvestmentCounter ?s1 = 0"
    by (simp_all add: endOfYear_def nextActiveCdTranches_def startAcc_def
        shortfallAmountThisYear_def shortfallBeforeHysa_def hysaWithdrawalToCover_def
        netCashFlowBeforeHysaTransfer_def cashAvailableThisYear_def startingCashForYear_def
        totalWithdrawalsThisYear_def yearWithdrawals_def taxesDueThisYear_def
        totalYearlyInterest_def initialState_def envOf_def)
  have rd: "reinvestDuration protoRates ''toString'' = Some 12"
    by (simp add: reinvestDuration_def protoRates_def)
  have env: "envRates ?env = protoRates" "envScenario ?env = Some key" "envStartYear ?env = 2025"
    by (simp_all add: envOf_def exampleStart_def)
  have cdf: "maturityDate protoCd = Some \<lparr> fullYear = 2026, monthIndex = 0 \<rparr>"
    "reinvestmentOption protoCd = ''newCD''" "reinvestmentTerm protoCd = ''toString''"
    by (simp_all add: protoCd_def)
  have c2: "cdPass ?env ?s1 2026 = Inl (NotANumber, 0)"
    unfolding cdPass_def s1
    by (simp add: processCd_def reinvest_def reinvestAsNewCD_def startAcc_def Let_def
        cdf env rd g)
  have "runYears ?env ?s0 (yearRange 2025 [] [protoCd]) = Inl (NotANumber, 0)"
    by (simp add: ys yearStep_def c1 h1 c2)
  from project_fails [of protoRates "Some key" exampleStart "1 / 5" "[]" "[protoCd]" 0
      NotANumber 0] this
  have "project 0 protoRates (Some key) exampleStart (1 / 5) [] [protoCd] = (Inl NotANumber, 0)"
    by (simp add: exampleStart_def)
  then show ?thesis
    by (simp add: calculateProjections_def protoInput_def proto_its)
qed

text \<open>Claim C5 at the term key \<^verbatim>\<open>toString\<close>, which has an entry in the rate table
  (APY 4, twelve months), in 2026 of a portfolio that starts in 2025, under the aggressive
  rate fall (floor 0.10). The lookup \<^verbatim>\<open>adjustments[termKey]\<close> finds the inherited
  member, which is not nullish, so no fallback applies and the resolver's result is NaN,
  which is not at or above the floor. A projection reaches that call when a deposit
  elects to be reinvested in this term.\<close>

theorem inherited_term_defeats_floor:
  "baseApyOf protoRates ''toString'' = Some 4 \<and>
   floorApy ratesFallSignificantly = 0.10 \<and>
   getRateForYear ''toString'' 2026 (Some ''ratesFallSignificantly'') protoRates 2025 =
     Inl NotANumber \<and>
   calculateProjections 0 (protoInput\<lparr> rateScenario := Some ''ratesFallSignificantly'' \<rparr>) =
     (Inl NotANumber, 0)"
proof -
  have b: "baseApyOf protoRates ''toString'' = Some 4"
    by (simp add: baseApyOf_def protoRates_def)
  have f: "floorApy ratesFallSignificantly = 0.10"
    by (simp add: ratesFallSignificantly_def)
  have k: "RATE_SCENARIOS ''ratesFallSignificantly'' = Some (Adjusted ratesFallSignificantly)"
    by (simp add: RATE_SCENARIOS_def)
  have n: "scenarioApy ratesFallSignificantly ''toString'' 4 2026 2025 = Inl NotANumber"
    by (simp add: scenarioApy_def adjustmentFor_def getProperty_def ratesFallSignificantly_def
        fixedTermKeys_def objectPrototypeNames_def)
  have g: "getRateForYear ''toString'' 2026 (Some ''ratesFallSignificantly'') protoRates 2025 =
     Inl NotANumber"
    by (simp add: getRateForYear_adjusted [OF b k] n)
  from b f g proto_run [OF k n] show ?thesis by blast
qed

text \<open>Claim C7 at the same term key under the moderate rate fall (effect from the second
  year, full in the third, floor 0.25, liquid adjustment -0.5), in 2026 of a portfolio
  that starts in 2025: the year lies in the interpolation window and the term has no
  adjustment entry of its own, so the claim's value is
  \<open>max 0.25 (4 + (4 - 0.5 - 4) * (1 / 2)) = 3.75\<close>. The resolver's result is NaN: the
  lookup finds the inherited member and the fallback to the liquid adjustment never
  happens.\<close>

theorem inherited_term_defeats_interpolation:
  "baseApyOf protoRates ''toString'' = Some 4 \<and>
   adjustments ratesFallModerately ''toString'' = None \<and>
   adjustments ratesFallModerately ''HYSA'' = Some (- 0.5) \<and>
   targetYearStartEffect ratesFallModerately - 1 \<le> 2026 - 2025 \<and>
   2026 - 2025 < targetYearFullEffect ratesFallModerately - 1 \<and>
   getRateForYear ''toString'' 2026 (Some ''ratesFallModerately'') protoRates 2025 =
     Inl NotANumber \<and>
   calculateProjections 0 (protoInput\<lparr> rateScenario := Some ''ratesFallModerately'' \<rparr>) =
     (Inl NotANumber, 0)"
proof -
  have b: "baseApyOf protoRates ''toString'' = Some 4"
    by (simp add: baseApyOf_def protoRates_def)
  have a: "adjustments ratesFallModerately ''toString'' = None"
    "adjustments ratesFallModerately ''HYSA'' = Some (- 0.5)"
    by (simp_all add: ratesFallModerately_def fixedTermKeys_def)
  have t: "targetYearStartEffect ratesFallModerately - 1 \<le> 2026 - 2025"
    "2026 - 2025 < targetYearFullEffect ratesFallModerately - 1"
    by (simp_all add: ratesFallModerately_def)
  have k: "RATE_SCENARIOS ''ratesFallModerately'' = Some (Adjusted ratesFallModerately)"
    by (simp add: RATE_SCENARIOS_def)
  have n: "scenarioApy ratesFallModerately ''toString'' 4 2026 2025 = Inl NotANumber"
    by (simp add: scenarioApy_def adjustmentFor_def getProperty_def a objectPrototypeNames_def)
       (simp add: ratesFallModerately_def)
  have g: "getRateForYear ''toString'' 2026 (Some ''ratesFallModerately'') protoRates 2025 =
     Inl NotANumber"
    by (simp add: getRateForYear_adjusted [OF b k] n)
  from b a t g proto_run [OF k n] show ?thesis by blast
qed

text \<open>Away from the inherited names the resolver does what those three claims say.\<close>

lemma resolver_baseline:
  assumes "baseApyOf baseRates tkey = Some b"
    and "scenarioKey = None \<or> scenarioKey = Some ''ratesStayHigh'' \<or> scenarioKey = Some [] \<or>
         (\<exists>key. scenarioKey = Some key \<and> RATE_SCENARIOS key = None \<and>
                key \<notin> set objectPrototypeNames)"
  shows "getRateForYear tkey yr scenarioKey baseRates startYear = Inr b"
  using assms by (auto simp: getRateForYear_def getProperty_def)

lemma resolver_floor:
  assumes "RATE_SCENARIOS key = Some (Adjusted cfg)"
    and "baseApyOf baseRates tkey = Some b"
    and "getRateForYear tkey yr (Some key) baseRates startYear = Inr r"
  shows "floorApy cfg \<le> r"
  using assms(3) unfolding getRateForYear_adjusted [OF assms(2,1)]
  by (auto simp: scenarioApy_def Let_def split: option.splits)

lemma resolver_interpolation:
  assumes "RATE_SCENARIOS key = Some (Adjusted cfg)"
    and "baseApyOf baseRates tkey = Some b"
    and "adjustmentFor cfg tkey = Some a"
    and "targetYearStartEffect cfg - 1 \<le> yr - startYear"
    and "yr - startYear < targetYearFullEffect cfg - 1"
  shows "getRateForYear tkey yr (Some key) baseRates startYear =
         Inr (max (floorApy cfg)
                (b + (b + a - b) *
                   (real_of_int (yr - startYear - (targetYearStartEffect cfg - 1) + 1) /
                    real_of_int (targetYearFullEffect cfg - 1 - (targetYearStartEffect cfg - 1) + 1))))"
  using assms(3-5) unfolding getRateForYear_adjusted [OF assms(2,1)]
  by (simp add: scenarioApy_def Let_def)

section \<open>The reported cash available\<close>

text \<open>Claim C1, amended. In every simulated year (the \<open>k\<close>-th record, computed from
  the state \<open>s\<close> with which the run enters that year, the outcome \<open>acc\<close> of the
  pass over the deposits and the liquid interest \<open>h\<close> of that year) the field
  \<^verbatim>\<open>cashAvailableStart\<close> is the incoming cash balance plus the cash from
  maturities plus the liquid interest. The carried shortfall is not deducted: the field
  exceeds \<open>startingCash + cashFromMaturities + liquidInterest\<close> by the shortfall carried
  from the previous year.\<close>

theorem cash_available_start_reported:
  assumes "project c rates scenario d tax ws its = (Inr res, c')"
    and "k < length (projectionYears res)"
  shows "\<exists>s acc h.
           runYears (envOf rates scenario d tax ws its) (initialState its c)
             (take k (yearRange (fullYear d) ws its)) = Inr s \<and>
           cdPass (envOf rates scenario d tax ws its) s (yearRange (fullYear d) ws its ! k) = Inr acc \<and>
           hysaInterestThisYear (envOf rates scenario d tax ws its) s
             (yearRange (fullYear d) ws its ! k) = Inr h \<and>
           year (projectionYears res ! k) = yearRange (fullYear d) ws its ! k \<and>
           cashAvailableStart (projectionYears res ! k) =
             cashBalance s + cashFromMaturingThisYear acc + h \<and>
           cashAvailableStart (projectionYears res ! k) =
             (startingCashForYear s + cashFromMaturingThisYear acc + h) + cumulativeShortfall s"
proof -
  let ?env = "envOf rates scenario d tax ws its"
  let ?yrs = "yearRange (fullYear d) ws its"
  from project_returns [OF assms(1)] obtain final where
    f: "runYears ?env (initialState its c) ?yrs = Inr final"
    and p: "projectionYears res = projection final"
    by auto
  have e: "projection (initialState its c) = []" by (simp add: initialState_def)
  have k: "k < length ?yrs"
    using assms(2) by (simp add: p length_projection_runYears [OF f] e)
  from nth_projection_runYears [OF f e k] obtain s acc h where
    "runYears ?env (initialState its c) (take k ?yrs) = Inr s"
    "cdPass ?env s (?yrs ! k) = Inr acc" "hysaInterestThisYear ?env s (?yrs ! k) = Inr h"
    "projection final ! k = yearRecord ?env s (?yrs ! k) acc h"
    by blast
  then show ?thesis
    by (intro exI [of _ s] exI [of _ acc] exI [of _ h])
       (simp add: p yearRecord_def startingCashForYear_def)
qed

text \<open>The variables of the loop body, for evaluating a year.\<close>

lemmas yearLocals =
  startingCashForYear_def nextActiveCdTranches_def interestFactor_def
  hysaBalanceAfterReinvest_def totalYearlyInterest_def
  taxesDueThisYear_def yearWithdrawals_def totalWithdrawalsThisYear_def
  cashAvailableThisYear_def netCashFlowBeforeHysaTransfer_def shortfallBeforeHysa_def
  hysaWithdrawalToCover_def hysaBalanceEndOfYear_def netCashFlowAfterHysaTransfer_def
  shortfallAmountThisYear_def endOfYearCashOf_def yearEndedWithShortfall_def
  ongoingCDsPrincipal_def ongoingInvestmentsPrincipal_def totalPortfolioValueEndOfYear_def

text \<open>The run without holdings and with a withdrawal of 100 in 2025, evaluated up to
  the start of 2026.\<close>

lemma shortfall_years: "yearRange 2025 shortfallWithdrawals [] = [2025, 2026, 2027, 2028, 2029, 2030]"
  by (simp add: yearRange_def minYearOf_def maxYearOf_def minOf_def maxOf_def
      withdrawalYears_def maturityYears_def maxInitialTerm_def shortfallWithdrawals_def)

lemma shortfall_runs:
  "\<exists>res c'. project 0 exampleRates (Some ''ratesStayHigh'') exampleStart (1 / 5)
              shortfallWithdrawals [] = (Inr res, c')"
  using project_runs [OF getRateForYear_baseline_total] by blast

lemma shortfall_project:
  "calculateProjections 0 shortfallInput =
     project 0 exampleRates (Some ''ratesStayHigh'') exampleStart (1 / 5) shortfallWithdrawals []"
  by (simp add: calculateProjections_def shortfallInput_def)

lemma shortfall_state:
  "cashBalance shortfallState = 0" "cumulativeShortfall shortfallState = 100"
  "activeCdTranches shortfallState = []" "currentHysaBalance shortfallState = 0"
  by (simp_all add: shortfallState_def endOfYear_def yearLocals startAcc_def
      initialState_def shortfallEnv_def envOf_def shortfallWithdrawals_def numberOrZero_def)

lemma shortfall_first_year:
  "yearStep shortfallEnv (initialState [] 0) 2025 = Inr shortfallState"
proof -
  have "cdPass shortfallEnv (initialState [] 0) 2025 = Inr (startAcc 0 0)"
    by (simp add: cdPass_def initialState_def)
  moreover have "hysaInterestThisYear shortfallEnv (initialState [] 0) 2025 = Inr 0"
    by (simp add: hysaInterestThisYear_def initialState_def)
  ultimately show ?thesis by (simp add: yearStep_def shortfallState_def)
qed

lemma shortfall_2026:
  "cdPass shortfallEnv shortfallState 2026 = Inr (startAcc 0 0)"
  "hysaInterestThisYear shortfallEnv shortfallState 2026 = Inr 0"
proof -
  have "totalInterestEarnedCumulative shortfallState = 0" "reinvestmentCounter shortfallState = 0"
    by (simp_all add: shortfallState_def endOfYear_def startAcc_def)
  then show "cdPass shortfallEnv shortfallState 2026 = Inr (startAcc 0 0)"
    by (simp add: cdPass_def shortfall_state)
  show "hysaInterestThisYear shortfallEnv shortfallState 2026 = Inr 0"
    by (simp add: hysaInterestThisYear_def shortfall_state)
qed

lemma shortfall_second_record:
  assumes "project 0 exampleRates (Some ''ratesStayHigh'') exampleStart (1 / 5)
             shortfallWithdrawals [] = (Inr res, c')"
  shows "projectionYears res ! 1 = yearRecord shortfallEnv shortfallState 2026 (startAcc 0 0) 0"
proof -
  from project_returns [OF assms] obtain final where
    f: "runYears shortfallEnv (initialState [] 0) [2025, 2026, 2027, 2028, 2029, 2030] = Inr final"
    and p: "projectionYears res = projection final"
    by (auto simp: shortfallEnv_def exampleStart_def shortfall_years)
  have e: "projection (initialState [] 0) = []" by (simp add: initialState_def)
  from nth_projection_runYears [OF f e, of 1] obtain s acc h where
    "runYears shortfallEnv (initialState [] 0) (take 1 [2025, 2026, 2027, 2028, 2029, 2030]) = Inr s"
    "cdPass shortfallEnv s 2026 = Inr acc" "hysaInterestThisYear shortfallEnv s 2026 = Inr h"
    "projection final ! 1 = yearRecord shortfallEnv s 2026 acc h"
    by auto
  then show ?thesis
    by (simp add: p shortfall_first_year shortfall_2026)
qed

text \<open>In 2026 that run carries a shortfall of 100, and the reported figure is the
  cash available to the year plus 100.\<close>

theorem cash_available_start_reported_witness:
  "cashAvailableStart
     (projectionYears (projr (fst (project 0 exampleRates (Some ''ratesStayHigh'') exampleStart
                              (1 / 5) shortfallWithdrawals []))) ! 1) =
   (startingCashForYear shortfallState + cashFromMaturingThisYear (startAcc 0 0) + 0) +
     cumulativeShortfall shortfallState \<and>
   cumulativeShortfall shortfallState = 100"
proof -
  from shortfall_runs obtain res c' where
    r: "project 0 exampleRates (Some ''ratesStayHigh'') exampleStart (1 / 5)
          shortfallWithdrawals [] = (Inr res, c')"
    by blast
  have k: "1 < length (projectionYears res)"
  proof -
    from project_returns [OF r] obtain final where
      f: "runYears shortfallEnv (initialState [] 0) [2025, 2026, 2027, 2028, 2029, 2030] = Inr final"
      and p: "projectionYears res = projection final"
      by (auto simp: shortfallEnv_def exampleStart_def shortfall_years)
    show ?thesis
      using length_projection_runYears [OF f] by (simp add: p initialState_def)
  qed
  have y: "yearRange (fullYear exampleStart) shortfallWithdrawals [] =
           [2025, 2026, 2027, 2028, 2029, 2030]"
    by (simp add: exampleStart_def shortfall_years)
  from cash_available_start_reported [OF r k]
  show ?thesis
    by (auto simp: y r shortfallEnv_def [symmetric] shortfall_first_year shortfall_2026
        shortfall_state)
qed

text \<open>Claim C1 as stated fails in 2026 of that run: the record reports 0, while
  \<open>startingCash + cashFromMaturities + liquidInterest\<close> is -100.\<close>

theorem cash_available_start_counterexample:
  "projectionYears (projr (fst (calculateProjections 0 shortfallInput))) ! 1 =
     yearRecord shortfallEnv shortfallState 2026 (startAcc 0 0) 0 \<and>
   cdPass shortfallEnv shortfallState 2026 = Inr (startAcc 0 0) \<and>
   hysaInterestThisYear shortfallEnv shortfallState 2026 = Inr 0 \<and>
   cashAvailableStart (yearRecord shortfallEnv shortfallState 2026 (startAcc 0 0) 0) = 0 \<and>
   startingCashForYear shortfallState + cashFromMaturingThisYear (startAcc 0 0) + 0 = - 100"
proof -
  from shortfall_runs obtain res c' where
    p: "project 0 exampleRates (Some ''ratesStayHigh'') exampleStart (1 / 5)
          shortfallWithdrawals [] = (Inr res, c')"
    by blast
  have r: "projectionYears (projr (fst (calculateProjections 0 shortfallInput))) ! 1 =
           yearRecord shortfallEnv shortfallState 2026 (startAcc 0 0) 0"
    using shortfall_second_record [OF p] by (simp add: shortfall_project p)
  have a: "cashAvailableStart (yearRecord shortfallEnv shortfallState 2026 (startAcc 0 0) 0) = 0"
    by (simp add: yearRecord_def shortfall_state startAcc_def)
  have b: "startingCashForYear shortfallState + cashFromMaturingThisYear (startAcc 0 0) + 0 = - 100"
    by (simp add: startingCashForYear_def shortfall_state startAcc_def)
  from r a b shortfall_2026 show ?thesis by blast
qed

section \<open>Conservation of the portfolio value\<close>



section \<open>Independence of the reinvestment counter\<close>

text \<open>The counter enters a run only through the identifiers of reinvested deposits. Two
  runs from different counter values therefore pass through states that agree in
  everything but those identifiers and the counter itself, they fail in the same year
  with the same failure if they fail, and no field of a year record reads an
  identifier.\<close>

lemma sameButId_fields:
  assumes "sameButId t t'"
  shows "amount t = amount t'" "termKey t = termKey t'" "termMonths t = termMonths t'"
    "maturityDate t = maturityDate t'" "interestEarned t = interestEarned t'"
    "valueAtMaturity t = valueAtMaturity t'" "isHYSA t = isHYSA t'"
    "reinvestmentOption t = reinvestmentOption t'" "reinvestmentTerm t = reinvestmentTerm t'"
  using assms by (cases t; cases t'; simp add: sameButId_def)+

lemma sameButId_refl: "sameButId t t"
  by (simp add: sameButId_def)

lemma processCd_agree:
  assumes "accAgree a a'" and "sameButId cd cd'"
  shows "rel_sum (=) accAgree (processCd env yr sf a cd) (processCd env yr sf a' cd')"
  using assms(1) sameButId_fields [OF assms(2)] assms(2)
  by (auto simp: processCd_def reinvest_def reinvestAsNewCD_def toCash_def accAgree_def
      generateReinvestId_def Let_def sameButId_def list_all2_appendI
      split: option.splits sum.splits)

lemma cdLoop_agree:
  assumes "list_all2 sameButId cds cds'" and "accAgree a a'"
  shows "rel_sum (\<lambda>x y. fst x = fst y) accAgree
           (cdLoop env yr sf a cds) (cdLoop env yr sf a' cds')"
  using assms
proof (induction cds cds' arbitrary: a a' rule: list_all2_induct)
  case Nil
  then show ?case by simp
next
  case (Cons x xs y ys)
  from processCd_agree [OF Cons.prems Cons.hyps(1), of env yr sf] show ?case
    by (cases "processCd env yr sf a x"; cases "processCd env yr sf a' y")
       (simp_all add: Cons.IH)
qed

lemma cdPass_agree:
  assumes "stateAgree s s'"
  shows "rel_sum (\<lambda>x y. fst x = fst y) accAgree (cdPass env s yr) (cdPass env s' yr)"
proof -
  have "accAgree (startAcc (totalInterestEarnedCumulative s) (reinvestmentCounter s))
                 (startAcc (totalInterestEarnedCumulative s') (reinvestmentCounter s'))"
    using assms by (simp add: accAgree_def startAcc_def stateAgree_def)
  with assms show ?thesis
    unfolding cdPass_def
    using cdLoop_agree [of "activeCdTranches s" "activeCdTranches s'"]
    by (simp add: stateAgree_def)
qed

lemma sum_amount_agree:
  assumes "list_all2 sameButId xs ys"
  shows "sum_list (map amount (filter (maturesAfter yr) xs)) =
         sum_list (map amount (filter (maturesAfter yr) ys))"
    and "sum_list (map amount xs) = sum_list (map amount ys)"
  using assms
  by (induction xs ys rule: list_all2_induct)
     (auto simp: maturesAfter_def dest: sameButId_fields)

lemma locals_agree:
  assumes "stateAgree s s'" and "accAgree acc acc'"
  shows "hysaBalanceAfterReinvest s acc = hysaBalanceAfterReinvest s' acc'"
    and "totalYearlyInterest acc h = totalYearlyInterest acc' h"
    and "taxesDueThisYear env acc h = taxesDueThisYear env acc' h"
    and "cashAvailableThisYear s acc h = cashAvailableThisYear s' acc' h"
    and "netCashFlowBeforeHysaTransfer env s yr acc h = netCashFlowBeforeHysaTransfer env s' yr acc' h"
    and "ongoingCDsPrincipal yr acc = ongoingCDsPrincipal yr acc'"
proof -
  note a = assms(2) [unfolded accAgree_def]
  note b = assms(1) [unfolded stateAgree_def]
  show "hysaBalanceAfterReinvest s acc = hysaBalanceAfterReinvest s' acc'"
    using a b by (simp add: hysaBalanceAfterReinvest_def)
  show t: "totalYearlyInterest acc h = totalYearlyInterest acc' h"
    using a by (simp add: totalYearlyInterest_def)
  show x: "taxesDueThisYear env acc h = taxesDueThisYear env acc' h"
    using t by (simp add: taxesDueThisYear_def)
  show c: "cashAvailableThisYear s acc h = cashAvailableThisYear s' acc' h"
    using a b by (simp add: cashAvailableThisYear_def startingCashForYear_def)
  show "netCashFlowBeforeHysaTransfer env s yr acc h = netCashFlowBeforeHysaTransfer env s' yr acc' h"
    using c x by (simp add: netCashFlowBeforeHysaTransfer_def)
  have "list_all2 sameButId (nextActiveCdTranches acc) (nextActiveCdTranches acc')"
    using a by (simp add: nextActiveCdTranches_def list_all2_appendI)
  then show "ongoingCDsPrincipal yr acc = ongoingCDsPrincipal yr acc'"
    unfolding ongoingCDsPrincipal_def by (rule sum_amount_agree(1))
qed

lemma derived_agree:
  assumes "stateAgree s s'" and "accAgree acc acc'"
  shows "shortfallBeforeHysa env s yr acc h = shortfallBeforeHysa env s' yr acc' h"
    and "hysaWithdrawalToCover env s yr acc h = hysaWithdrawalToCover env s' yr acc' h"
    and "hysaBalanceEndOfYear env s yr acc h = hysaBalanceEndOfYear env s' yr acc' h"
    and "shortfallAmountThisYear env s yr acc h = shortfallAmountThisYear env s' yr acc' h"
    and "endOfYearCashOf env s yr acc h = endOfYearCashOf env s' yr acc' h"
    and "yearEndedWithShortfall env s yr acc h = yearEndedWithShortfall env s' yr acc' h"
    and "totalPortfolioValueEndOfYear env s yr acc h = totalPortfolioValueEndOfYear env s' yr acc' h"
    and "ongoingInvestmentsPrincipal env s yr acc h = ongoingInvestmentsPrincipal env s' yr acc' h"
  by (simp_all add: shortfallBeforeHysa_def hysaWithdrawalToCover_def hysaBalanceEndOfYear_def
      shortfallAmountThisYear_def endOfYearCashOf_def yearEndedWithShortfall_def
      totalPortfolioValueEndOfYear_def ongoingInvestmentsPrincipal_def
      netCashFlowAfterHysaTransfer_def locals_agree [OF assms])

lemma yearRecord_agree:
  assumes "stateAgree s s'" and "accAgree acc acc'"
  shows "yearRecord env s yr acc h = yearRecord env s' yr acc' h"
proof -
  note a = assms(2) [unfolded accAgree_def]
  have n: "sum_list (map amount (newlyReinvestedTranches acc)) =
           sum_list (map amount (newlyReinvestedTranches acc'))"
    using a by (simp add: sum_amount_agree(2))
  show ?thesis
    using a assms(1) [unfolded stateAgree_def]
    by (simp add: yearRecord_def n locals_agree [OF assms] derived_agree [OF assms])
qed

lemma endOfYear_agree:
  assumes "stateAgree s s'" and "accAgree acc acc'"
  shows "stateAgree (endOfYear env s yr acc h) (endOfYear env s' yr acc' h)"
proof -
  note a = assms(2) [unfolded accAgree_def]
  show ?thesis
    using a assms(1) [unfolded stateAgree_def]
    by (simp add: stateAgree_def endOfYear_def yearRecord_agree [OF assms]
        locals_agree [OF assms] derived_agree [OF assms] nextActiveCdTranches_def
        list_all2_appendI)
qed

lemma hysaInterest_agree:
  assumes "stateAgree s s'"
  shows "hysaInterestThisYear env s yr = hysaInterestThisYear env s' yr"
  using assms by (simp add: hysaInterestThisYear_def stateAgree_def split: sum.splits)

lemma yearStep_agree:
  assumes "stateAgree s s'"
  shows "rel_sum (\<lambda>x y. fst x = fst y) stateAgree (yearStep env s yr) (yearStep env s' yr)"
proof -
  note c = cdPass_agree [OF assms, of env yr]
  note h = hysaInterest_agree [OF assms, of env yr]
  show ?thesis
  proof (cases "cdPass env s yr")
    case (Inl fc)
    with c obtain fc' where "cdPass env s' yr = Inl fc'" "fst fc = fst fc'"
      by (cases "cdPass env s' yr") auto
    then show ?thesis using Inl by (simp add: yearStep_def)
  next
    case (Inr acc)
    with c obtain acc' where a': "cdPass env s' yr = Inr acc'" and ag: "accAgree acc acc'"
      by (cases "cdPass env s' yr") auto
    show ?thesis
      using Inr a' h endOfYear_agree [OF assms ag, of env yr]
      by (cases "hysaInterestThisYear env s' yr") (simp_all add: yearStep_def)
  qed
qed

lemma runYears_agree:
  assumes "stateAgree s s'"
  shows "rel_sum (\<lambda>x y. fst x = fst y) stateAgree (runYears env s ys) (runYears env s' ys)"
  using assms
proof (induction ys arbitrary: s s')
  case Nil
  then show ?case by simp
next
  case (Cons y ys)
  from yearStep_agree [OF Cons.prems, of env y] show ?case
    by (cases "yearStep env s y"; cases "yearStep env s' y") (simp_all add: Cons.IH)
qed

lemma initialState_agree: "stateAgree (initialState its c1) (initialState its c2)"
  by (simp add: stateAgree_def initialState_def list_all2_same sameButId_refl)

lemma project_counter_free:
  "fst (project c1 rates scenario d tax ws its) = fst (project c2 rates scenario d tax ws its)"
proof -
  let ?r1 = "runYears (envOf rates scenario d tax ws its) (initialState its c1)
               (yearRange (fullYear d) ws its)"
  let ?r2 = "runYears (envOf rates scenario d tax ws its) (initialState its c2)
               (yearRange (fullYear d) ws its)"
  have "rel_sum (\<lambda>x y. fst x = fst y) stateAgree ?r1 ?r2"
    by (rule runYears_agree [OF initialState_agree])
  then show ?thesis
    by (cases ?r1; cases ?r2)
       (auto simp: project_def Let_def finalTotals_def stateAgree_def split_beta)
qed

text \<open>Claim C9. What \<^verbatim>\<open>calculateProjections\<close> returns (or throws) does not depend on
  the value of the reinvestment counter at the start of the call: two runs on the same
  inputs give the same outcome, hence the same year records, from any two counter values,
  in particular from identical ones and from the value an earlier run left behind.\<close>

theorem projection_independent_of_counter:
  "fst (calculateProjections c1 inp) = fst (calculateProjections c2 inp)"
  using project_counter_free [of c1 _ _ _ _ _ _ c2]
  by (simp add: calculateProjections_def Let_def split_beta
      split: date_input.splits option.splits sum.splits)

text \<open>The ladder from counter 0 and from counter 7, and a second run that starts from
  the counter the first run returned.\<close>

theorem projection_independent_of_counter_witness:
  "fst (calculateProjections 0 ladderInput) = fst (calculateProjections 7 ladderInput) \<and>
   fst (calculateProjections (snd (calculateProjections 0 ladderInput)) ladderInput) =
   fst (calculateProjections 0 ladderInput)"
  using projection_independent_of_counter [of 0 ladderInput 7]
    projection_independent_of_counter [of "snd (calculateProjections 0 ladderInput)" ladderInput 0]
  by simp

section \<open>The liquid balance\<close>

text \<open>The liquid balance grows by the maturity values of the deposits that elect the
  liquid account and shrinks by what covers a shortfall, which is at most the balance. It
  stays non-negative as long as every deposit that elects the liquid account has a
  non-negative maturity value; deposits created by reinvestment are always held as cash.\<close>

lemma processCd_safe:
  assumes "accSafe acc" and "hysaSafe cd" and "processCd env yr sf acc cd = Inr acc'"
  shows "accSafe acc'"
  using assms
  by (auto simp: processCd_def reinvest_def reinvestAsNewCD_def toCash_def accSafe_def
      hysaSafe_def generateReinvestId_def Let_def split: option.splits if_splits sum.splits)

lemma cdLoop_safe:
  assumes "list_all hysaSafe cds" and "accSafe acc" and "cdLoop env yr sf acc cds = Inr acc'"
  shows "accSafe acc'"
  using assms
proof (induction cds arbitrary: acc)
  case Nil
  then show ?case by simp
next
  case (Cons cd cds)
  from Cons.prems(3) obtain acc1 where
    p: "processCd env yr sf acc cd = Inr acc1" and l: "cdLoop env yr sf acc1 cds = Inr acc'"
    by (auto split: sum.splits)
  from Cons.prems(1) have "hysaSafe cd" "list_all hysaSafe cds" by simp_all
  from Cons.IH [OF this(2) processCd_safe [OF Cons.prems(2) this(1) p] l] show ?case .
qed

lemma cdPass_safe:
  assumes "stateSafe s" and "cdPass env s yr = Inr acc"
  shows "accSafe acc"
  using assms(2) unfolding cdPass_def
  by (rule cdLoop_safe [rotated 2])
     (use assms(1) in \<open>simp_all add: stateSafe_def accSafe_def startAcc_def\<close>)

lemma hysaBalanceEndOfYear_nonneg:
  assumes "stateSafe s" and "accSafe acc"
  shows "0 \<le> hysaBalanceEndOfYear env s yr acc h"
proof -
  have "0 \<le> hysaBalanceAfterReinvest s acc"
    using assms by (simp add: hysaBalanceAfterReinvest_def stateSafe_def accSafe_def)
  then show ?thesis
    by (simp add: hysaBalanceEndOfYear_def hysaWithdrawalToCover_def)
qed

lemma endOfYear_safe:
  assumes "stateSafe s" and "accSafe acc"
  shows "stateSafe (endOfYear env s yr acc h)"
  using hysaBalanceEndOfYear_nonneg [OF assms, of env yr h] assms(2)
  by (simp add: stateSafe_def endOfYear_def nextActiveCdTranches_def accSafe_def)

lemma runYears_safe:
  assumes "stateSafe s" and "\<forall>r\<in>set (projection s). 0 \<le> endOfYearHysaBalance r"
    and "runYears env s ys = Inr f"
  shows "\<forall>r\<in>set (projection f). 0 \<le> endOfYearHysaBalance r"
  using assms
proof (induction ys arbitrary: s)
  case Nil
  then show ?case by simp
next
  case (Cons y ys)
  from Cons.prems(3) obtain acc h where
    c: "cdPass env s y = Inr acc" and r: "runYears env (endOfYear env s y acc h) ys = Inr f"
    by (auto simp: yearStep_Inr split: sum.splits)
  note a = cdPass_safe [OF Cons.prems(1) c]
  have "\<forall>r\<in>set (projection (endOfYear env s y acc h)). 0 \<le> endOfYearHysaBalance r"
    using Cons.prems(2) hysaBalanceEndOfYear_nonneg [OF Cons.prems(1) a, of env y h]
    by (auto simp: projection_endOfYear yearRecord_def)
  from Cons.IH [OF endOfYear_safe [OF Cons.prems(1) a] this r] show ?case .
qed

lemma initial_safe:
  assumes rows: "list_all2 (rowOf rates d) trs its"
    and amounts: "\<forall>t\<in>set trs. 0 \<le> numberOrZero (amountIn t)"
    and apys: "\<forall>t\<in>set trs. reinvestmentOptionIn t = Some ''hysa'' \<longrightarrow>
                 (\<forall>a. baseApyOf rates (termIn t) = Some a \<longrightarrow> - 100 \<le> a)"
  shows "stateSafe (initialState its c)"
proof -
  have "0 \<le> sum_list (map amount (filter isHYSA its)) \<and>
        list_all hysaSafe (filter (\<lambda>t. \<not> isHYSA t) its)"
    using rows amounts apys
  proof (induction trs its rule: list_all2_induct)
    case Nil
    then show ?case by simp
  next
    case (Cons t ts tr trs)
    from Cons(1) show ?case
    proof (cases rule: rowOf_cases)
      case liquid
      with Cons show ?thesis by simp
    next
      case (fixed a m)
      have "hysaSafe tr"
      proof (cases "reinvestmentOptionIn t = Some ''hysa''")
        case True
        then have "- 100 \<le> a" using Cons.prems(2) fixed(3) by simp
        then have "0 \<le> Math_pow (1 + a / 100) (real_of_int m / 12)"
          by (intro Math_pow_nonneg) simp
        then have "0 \<le> valueAtMaturity tr"
          using Cons.prems(1) by (simp add: fixed(7))
        then show ?thesis by (simp add: hysaSafe_def)
      next
        case False
        then have "reinvestmentOption tr \<noteq> ''hysa''"
          unfolding fixed(9) by (auto simp: orDefault_def split: option.splits if_splits)
        then show ?thesis by (simp add: hysaSafe_def)
      qed
      with Cons fixed show ?thesis by simp
    qed
  qed
  then show ?thesis by (simp add: stateSafe_def initialState_def)
qed

text \<open>Claim C10, amended. When the initial allocation amounts are non-negative and every
  row that elects to move its deposit to the liquid account has a base APY of at least
  -100 percent, the end-of-year liquid balance of every record is non-negative.\<close>

theorem liquid_balance_nonnegative:
  assumes "calculateProjections c inp = (Inr res, c')"
    and "tranches inp = Some trs" and "interestRates inp = Some rates"
    and "\<forall>t\<in>set trs. \<forall>a. amountIn t = Some a \<longrightarrow> 0 \<le> a"
    and "\<forall>t\<in>set trs. reinvestmentOptionIn t = Some ''hysa'' \<longrightarrow>
           (\<forall>a. baseApyOf rates (termIn t) = Some a \<longrightarrow> - 100 \<le> a)"
    and "r \<in> set (projectionYears res)"
  shows "0 \<le> endOfYearHysaBalance r"
proof -
  from calculateProjections_returns [OF assms(1)] assms(2,3,6)
  obtain d tax ws its scenario where
    i: "initialTranchesFrom rates d 0 trs = Inr its" and
    p: "project c rates scenario d tax ws its = (Inr res, c')"
    by auto
  from project_returns [OF p] obtain final where
    f: "runYears (envOf rates scenario d tax ws its) (initialState its c)
          (yearRange (fullYear d) ws its) = Inr final"
    and pr: "projectionYears res = projection final"
    by auto
  have a: "\<forall>t\<in>set trs. 0 \<le> numberOrZero (amountIn t)"
    using assms(4) by (auto simp: numberOrZero_def split: option.splits)
  have s: "stateSafe (initialState its c)"
    by (rule initial_safe [OF initialTranchesFrom_rows [OF i] a assms(5)])
  have e: "\<forall>r\<in>set (projection (initialState its c)). 0 \<le> endOfYearHysaBalance r"
    by (simp add: initialState_def)
  from runYears_safe [OF s e f] assms(6) show ?thesis
    by (simp add: pr)
qed

text \<open>Every run has at least six years.\<close>

lemma yearRange_length: "6 \<le> length (yearRange startYear ws its)"
proof -
  have a: "minYearOf startYear ws its \<le> startYear"
    by (simp add: minYearOf_def minOf_Min)
  have "0 \<le> maxInitialTerm its"
    by (simp add: maxInitialTerm_def maxOf_Max)
  then have "0 \<le> \<lceil>real_of_int (maxInitialTerm its) / 12\<rceil>" by simp
  then have b: "startYear + 5 \<le> maxYearOf startYear ws its"
    by (simp add: maxYearOf_def le_max_iff_disj)
  from a b show ?thesis by (simp add: yearRange_def)
qed

lemma project_length:
  assumes "project c rates scenario d tax ws its = (Inr res, c')"
  shows "length (projectionYears res) = length (yearRange (fullYear d) ws its)"
proof -
  from project_returns [OF assms] obtain final where
    f: "runYears (envOf rates scenario d tax ws its) (initialState its c)
          (yearRange (fullYear d) ws its) = Inr final"
    and pr: "projectionYears res = projection final"
    by auto
  from length_projection_runYears [OF f] show ?thesis
    by (simp add: pr initialState_def)
qed

lemma sweep_runs:
  "\<exists>res c'. calculateProjections c sweepInput = (Inr res, c') \<and> 1 < length (projectionYears res)"
proof -
  have "\<exists>its. initialTranchesFrom exampleRates exampleStart 0 sweepRows = Inr its"
    by (simp add: sweepRows_def initialTranche_def baseApyOf_def exampleRates_def orDefault_def
        Let_def)
  then obtain its where
    i: "initialTranchesFrom exampleRates exampleStart 0 sweepRows = Inr its" by blast
  from project_runs [OF getRateForYear_baseline_total] obtain res c' where
    p: "project c exampleRates (Some ''ratesStayHigh'') exampleStart (20 / 100) [] its = (Inr res, c')"
    by blast
  have "1 < length (projectionYears res)"
    using project_length [OF p] yearRange_length [of "fullYear exampleStart" "[]" its] by simp
  with p show ?thesis
    using calculateProjections_runs [OF _ _ _ _ _ _ i, of sweepInput 2000 20 "[]" c]
    by (simp add: sweepInput_def)
qed

text \<open>The second year of the ladder whose deposit moves to the liquid account when it
  matures in that year.\<close>

theorem liquid_balance_nonnegative_witness:
  "projectionYears (projr (fst (calculateProjections 0 sweepInput))) ! 1
     \<in> set (projectionYears (projr (fst (calculateProjections 0 sweepInput)))) \<and>
   0 \<le> endOfYearHysaBalance (projectionYears (projr (fst (calculateProjections 0 sweepInput))) ! 1)"
proof -
  from sweep_runs [of 0] obtain res c' where
    r: "calculateProjections 0 sweepInput = (Inr res, c')" and l: "1 < length (projectionYears res)"
    by blast
  from l have m: "projectionYears res ! 1 \<in> set (projectionYears res)" by simp
  have "0 \<le> endOfYearHysaBalance (projectionYears res ! 1)"
    by (rule liquid_balance_nonnegative [OF r _ _ _ _ m, of sweepRows exampleRates])
       (simp_all add: sweepInput_def sweepRows_def baseApyOf_def exampleRates_def)
  with m show ?thesis by (simp add: r)
qed

text \<open>The run with a twelve-month term at -300 percent, evaluated up to the start of
  2026.\<close>

lemma negative_tranches:
  "initialTranchesFrom negativeRates exampleStart 0 negativeRows = Inr negativeTranches"
  by (simp add: negativeRows_def negativeTranches_def negativeLiquid_def negativeCd_def
      initialTranche_def baseApyOf_def
      negativeRates_def orDefault_def numberOrZero_def Let_def Math_pow_def addMonths_def
      exampleStart_def)

lemma negative_project:
  "calculateProjections 0 negativeRateInput =
     project 0 negativeRates (Some ''ratesStayHigh'') exampleStart 0 [] negativeTranches"
  using calculateProjections_runs [OF _ _ _ _ _ _ negative_tranches, of negativeRateInput 1100 0 "[]" 0]
  by (simp add: negativeRateInput_def)

lemma negative_years:
  "yearRange 2025 [] negativeTranches = [2025, 2026, 2027, 2028, 2029, 2030, 2031]"
  by (simp add: yearRange_def minYearOf_def maxYearOf_def minOf_def maxOf_def
      withdrawalYears_def maturityYears_def maxInitialTerm_def negativeTranches_def
      negativeLiquid_def negativeCd_def)

lemma negative_env:
  "envHysaCount negativeEnv = 1" "envWithdrawals negativeEnv = []" "envTaxRate negativeEnv = 0"
  "envStartYear negativeEnv = 2025" "envStartMonth negativeEnv = 0"
  "envRates negativeEnv = negativeRates" "envScenario negativeEnv = Some ''ratesStayHigh''"
  by (simp_all add: negativeEnv_def envOf_def negativeTranches_def negativeLiquid_def
      negativeCd_def exampleStart_def)

lemma negative_initial:
  "cashBalance (initialState negativeTranches 0) = 0"
  "cumulativeShortfall (initialState negativeTranches 0) = 0"
  "currentHysaBalance (initialState negativeTranches 0) = 100"
  "totalInterestEarnedCumulative (initialState negativeTranches 0) = 0"
  "activeCdTranches (initialState negativeTranches 0) = [negativeCd]"
  "reinvestmentCounter (initialState negativeTranches 0) = 0"
  by (simp_all add: initialState_def negativeTranches_def negativeLiquid_def negativeCd_def)

lemma negative_hysa_rate:
  "getRateForYear ''HYSA'' yr (Some ''ratesStayHigh'') negativeRates 2025 = Inr 3.6"
  by (simp add: getRateForYear_def baseApyOf_def negativeRates_def)

lemma negative_first_year:
  "yearStep negativeEnv (initialState negativeTranches 0) 2025 = Inr negativeState"
proof -
  have c: "cdPass negativeEnv (initialState negativeTranches 0) 2025 = Inr negativeAcc2025"
    by (simp add: cdPass_def negative_initial processCd_def startAcc_def negativeCd_def
        negativeAcc2025_def)
  have h: "hysaInterestThisYear negativeEnv (initialState negativeTranches 0) 2025 = Inr 3.6"
    by (simp add: hysaInterestThisYear_def negative_initial negative_env interestFactor_def
        negative_hysa_rate)
  show ?thesis by (simp add: yearStep_def c h negativeState_def)
qed

lemma negative_state:
  "currentHysaBalance negativeState = 100" "cumulativeShortfall negativeState = 0"
  "activeCdTranches negativeState = [negativeCd]"
  "cashBalance negativeState = 3.6"
  by (simp_all add: negativeState_def endOfYear_def yearLocals negativeAcc2025_def negative_env
      negative_initial startAcc_def)

lemma negative_pass_2026:
  assumes "cdPass negativeEnv negativeState 2026 = Inr acc"
  shows "hysaValueReinvestedThisYear acc = - 2000" "cashFromMaturingThisYear acc = 0"
    "interestFromMaturingCDsThisYear acc = - 3000"
  using assms
  by (auto simp: cdPass_def negative_state negativeCd_def processCd_def startAcc_def
      reinvest_def negative_env)

lemma negative_second_record:
  assumes "project 0 negativeRates (Some ''ratesStayHigh'') exampleStart 0 [] negativeTranches =
             (Inr res, c')"
  shows "\<exists>acc. cdPass negativeEnv negativeState 2026 = Inr acc \<and>
           projectionYears res ! 1 = yearRecord negativeEnv negativeState 2026 acc 3.6"
proof -
  from project_returns [OF assms] obtain final where
    f: "runYears negativeEnv (initialState negativeTranches 0)
          [2025, 2026, 2027, 2028, 2029, 2030, 2031] = Inr final"
    and p: "projectionYears res = projection final"
    by (auto simp: negativeEnv_def exampleStart_def negative_years)
  have e: "projection (initialState negativeTranches 0) = []" by (simp add: initialState_def)
  from nth_projection_runYears [OF f e, of 1] obtain s acc h where
    s: "runYears negativeEnv (initialState negativeTranches 0)
       (take 1 [2025, 2026, 2027, 2028, 2029, 2030, 2031]) = Inr s"
    and c: "cdPass negativeEnv s 2026 = Inr acc"
    and hi: "hysaInterestThisYear negativeEnv s 2026 = Inr h"
    and r: "projection final ! 1 = yearRecord negativeEnv s 2026 acc h"
    by auto
  from s have s': "s = negativeState" by (simp add: negative_first_year)
  have "hysaInterestThisYear negativeEnv negativeState 2026 = Inr 3.6"
    by (simp add: hysaInterestThisYear_def negative_state negative_env interestFactor_def
        negative_hysa_rate)
  with hi s' have "h = 3.6" by simp
  with c r s' show ?thesis by (simp add: p)
qed

text \<open>Claim C10 as stated fails on that run: both amounts are positive, the deposit of
  1000 matures in 2026 with the value -2000 and moves to the liquid account, which ends the
  year at -1900.\<close>

theorem liquid_balance_counterexample:
  "map amountIn negativeRows = [Some 100, Some 1000] \<and>
   endOfYearHysaBalance
     (projectionYears (projr (fst (calculateProjections 0 negativeRateInput))) ! 1) = - 1900"
proof -
  from project_runs [OF getRateForYear_baseline_total] obtain res c' where
    p: "project 0 negativeRates (Some ''ratesStayHigh'') exampleStart 0 [] negativeTranches =
          (Inr res, c')"
    by blast
  from negative_second_record [OF p] obtain acc where
    c: "cdPass negativeEnv negativeState 2026 = Inr acc"
    and r: "projectionYears res ! 1 = yearRecord negativeEnv negativeState 2026 acc 3.6"
    by blast
  note pass = negative_pass_2026 [OF c]
  have n: "netCashFlowBeforeHysaTransfer negativeEnv negativeState 2026 acc 3.6 = 7.2"
    by (simp add: netCashFlowBeforeHysaTransfer_def cashAvailableThisYear_def
        startingCashForYear_def taxesDueThisYear_def totalWithdrawalsThisYear_def
        yearWithdrawals_def totalYearlyInterest_def negative_env negative_state pass)
  have b: "hysaBalanceEndOfYear negativeEnv negativeState 2026 acc 3.6 = - 1900"
    by (simp add: hysaBalanceEndOfYear_def hysaBalanceAfterReinvest_def hysaWithdrawalToCover_def
        shortfallBeforeHysa_def n negative_state pass)
  have a: "map amountIn negativeRows = [Some 100, Some 1000]"
    by (simp add: negativeRows_def)
  from a b show ?thesis
    unfolding negative_project p fst_conv sum.sel r by (simp add: yearRecord_def)
qed

end
